theory Spec2Isabelle
  imports Main "HOL-Library.Word"
begin

unbundle bit_operations_syntax

section \<open>Data model\<close>

text \<open>
  \<open>taglib::FileType\<close>, as the two \<open>switch (m_fileType)\<close> statements of
  \<open>metadatasourcetaglib.cpp\<close> use it: one constructor per \<open>case\<close> label, and
  \<open>Unknown\<close> for every value that reaches the \<open>default\<close> label.
\<close>

datatype FileType = MP3 | MP4 | FLAC | OGG | OPUS | WV | WAV | AIFF | Unknown

text \<open>
  Modelled from the spec: the declarations of \<open>MetadataSource::ImportResult\<close> and
  \<open>MetadataSource::ExportResult\<close> are in a header that is not part of the sources at hand.
  \<open>ImportResult\<close> has the four variants of the spec's \<open>ImportOutcome\<close>; the source
  file itself only ever names \<open>ImportResult::Succeeded\<close>, \<open>ImportResult::Unavailable\<close>
  and \<open>ImportResult::Failed\<close>. \<open>ExportResult\<close> has the three values that the source
  names, which are the variants of the spec's \<open>ExportOutcome\<close>.
\<close>

datatype ImportResult = Succeeded | Unavailable | Failed | UnsupportedFormat

datatype ExportResult = Succeeded | Failed | Unsupported

text \<open>
  Modelled from the spec: \<open>TagContainerKind\<close>. In the source these are the TagLib tag
  classes: FrameTag is \<open>ID3v2::Tag\<close>, LegacyFrameTag is the ID3v1 tag, KeyValueTag is
  \<open>APE::Tag\<close>, AtomTag is \<open>MP4::Tag\<close>, CommentBlockTag is \<open>Ogg::XiphComment\<close>, RiffInfoTag is
  \<open>RIFF::Info::Tag\<close>, PlainTextChunks are the AIFF text chunks.
\<close>

datatype TagContainerKind =
  FrameTag | LegacyFrameTag | KeyValueTag | AtomTag | CommentBlockTag | RiffInfoTag
  | PlainTextChunks

text \<open>
  Modelled from the spec: \<open>TrackMetadata\<close> is declared outside the sources at hand. The
  fields are those the spec lists; \<open>AiffFile::importTrackMetadataFromTextChunks\<close> writes
  title, artist and comment.
\<close>

record TrackMetadata =
  title :: string
  artist :: string
  album :: string
  comment :: string

text \<open>A \<open>QImage\<close> is either the null image (\<open>None\<close>) or holds picture data.\<close>

type_synonym 'img QImage = "'img option"

text \<open>A \<open>QString\<close> is either null (\<open>None\<close>) or holds characters.\<close>

type_synonym QString = "string option"

definition isNull :: "QString \<Rightarrow> bool" where
  "isNull s = (s = None)"

definition isEmpty :: "QString \<Rightarrow> bool" where
  "isEmpty s = (case s of None \<Rightarrow> True | Some cs \<Rightarrow> cs = [])"

text \<open>
  The object that a TagLib file class holds after opening a file. A field for a tag
  container holds the tag when the file has that container and \<open>None\<close> when not: the
  presence tests (\<open>hasID3v2Tag\<close>, \<open>hasAPETag\<close>, \<open>hasID3v1Tag\<close>, \<open>hasMP4Tag\<close>,
  \<open>hasXiphComment\<close>, \<open>hasInfoTag\<close>) hold exactly when the field holds a tag, and the
  source asserts the pointer that the accessor returns (\<open>DEBUG_ASSERT(pTag)\<close>) after each
  successful test. An accessor that does not create a tag returns the field, a null
  pointer for \<open>None\<close>; so does \<open>tag()\<close> of the two Ogg file classes, which the source
  tests for null. The accessors that create a tag are \<open>getOrCreate\<close> and \<open>tagAccessor\<close>
  below. \<open>tag\<close> is \<open>TagLib::MPEG::File::tag()\<close>, which according to the note in the
  source is valid also without any ID3 tag. \<open>chunks\<close> are the RIFF chunks of an AIFF file,
  each with \<open>chunkName(i)\<close> and \<open>chunkData(i)\<close>.
\<close>

record ('tag, 'pic) TagLibFile =
  isOpen :: bool
  ID3v2Tag :: "'tag option"
  APETag :: "'tag option"
  ID3v1Tag :: "'tag option"
  tag :: "'tag option"
  MP4Tag :: "'tag option"
  xiphComment :: "'tag option"
  InfoTag :: "'tag option"
  pictureList :: "'pic list"
  chunks :: "(string \<times> string) list"

definition hasID3v2Tag :: "('tag, 'pic) TagLibFile \<Rightarrow> bool" where
  "hasID3v2Tag file = (ID3v2Tag file \<noteq> None)"

definition hasAPETag :: "('tag, 'pic) TagLibFile \<Rightarrow> bool" where
  "hasAPETag file = (APETag file \<noteq> None)"

definition hasID3v1Tag :: "('tag, 'pic) TagLibFile \<Rightarrow> bool" where
  "hasID3v1Tag file = (ID3v1Tag file \<noteq> None)"

definition hasMP4Tag :: "('tag, 'pic) TagLibFile \<Rightarrow> bool" where
  "hasMP4Tag file = (MP4Tag file \<noteq> None)"

definition hasXiphComment :: "('tag, 'pic) TagLibFile \<Rightarrow> bool" where
  "hasXiphComment file = (xiphComment file \<noteq> None)"

definition hasInfoTag :: "('tag, 'pic) TagLibFile \<Rightarrow> bool" where
  "hasInfoTag file = (InfoTag file \<noteq> None)"

section \<open>The tag codec library\<close>

text \<open>
  A library function with a pointer parameter that it may write through and a \<open>bool\<close>
  result: \<open>onNull\<close> is its result for a null pointer, \<open>onSink\<close> its result and the new
  pointee otherwise. \<open>callSink\<close> is the call; a null pointer stays null.
\<close>

record ('a, 's) sinkFun =
  onNull :: "'a \<Rightarrow> bool"
  onSink :: "'a \<Rightarrow> 's \<Rightarrow> bool \<times> 's"

definition callSink :: "('a, 's) sinkFun \<Rightarrow> 's option \<Rightarrow> 'a \<Rightarrow> bool \<times> 's option" where
  "callSink f p a =
     (case p of
        None \<Rightarrow> (onNull f a, None)
      | Some s \<Rightarrow> (case onSink f a s of (r, s') \<Rightarrow> (r, Some s')))"

text \<open>
  The functions of namespace \<open>taglib\<close> that the source calls and that are defined
  elsewhere are parameters of the model. The byte-level codec is theirs; the source only
  decides which of them run, on which tag, in which order.
  A \<open>void\<close> importer maps the pointee; with a null \<open>pTrackMetadata\<close> there is nothing it
  could write. \<open>emptyTag\<close> is the tag that an accessor with \<open>create = true\<close> adds to a
  file without one. \<open>loadImage\<close> decodes one entry of a FLAC picture list, \<open>None\<close> when
  the entry is not usable. \<open>taglib_1_11_1\<close> is the compile-time test
  \<open>TAGLIB_MAJOR_VERSION == 1 && TAGLIB_MINOR_VERSION == 11 && TAGLIB_PATCH_VERSION == 1\<close>.
  \<open>mpeg_save\<close> is what \<open>TagLib::MPEG::File::save(tags)\<close> leaves in the file: it is given
  the mask \<open>tags\<close>, the file object and what the file holds so far. Which tags TagLib
  writes, keeps or strips for a mask is TagLib's matter and not fixed here.
\<close>

record ('tag, 'img, 'pic) TagLibApi =
  readAudioPropertiesFromFile :: "(('tag, 'pic) TagLibFile, TrackMetadata) sinkFun"
  importTrackMetadataFromTag :: "'tag \<Rightarrow> TrackMetadata \<Rightarrow> TrackMetadata"
  id3v2_importTrackMetadataFromTag :: "'tag \<Rightarrow> bool \<Rightarrow> TrackMetadata \<Rightarrow> TrackMetadata"
  id3v2_importCoverImageFromTag :: "('tag, 'img QImage) sinkFun"
  ape_importTrackMetadataFromTag :: "'tag \<Rightarrow> bool \<Rightarrow> TrackMetadata \<Rightarrow> TrackMetadata"
  ape_importCoverImageFromTag :: "('tag, 'img QImage) sinkFun"
  mp4_importTrackMetadataFromTag :: "'tag \<Rightarrow> bool \<Rightarrow> TrackMetadata \<Rightarrow> TrackMetadata"
  mp4_importCoverImageFromTag :: "('tag, 'img QImage) sinkFun"
  xiph_importTrackMetadataFromTag ::
    "'tag \<Rightarrow> FileType \<Rightarrow> bool \<Rightarrow> TrackMetadata \<Rightarrow> TrackMetadata"
  xiph_importCoverImageFromTag :: "('tag, 'img QImage) sinkFun"
  riff_importTrackMetadataFromTag :: "'tag \<Rightarrow> TrackMetadata \<Rightarrow> TrackMetadata"
  loadImage :: "'pic \<Rightarrow> 'img option"
  ape_exportTrackMetadataIntoTag :: "(TrackMetadata, 'tag) sinkFun"
  id3v2_exportTrackMetadataIntoTag :: "(TrackMetadata, 'tag) sinkFun"
  mp4_exportTrackMetadataIntoTag :: "(TrackMetadata, 'tag) sinkFun"
  xiph_exportTrackMetadataIntoTag :: "(TrackMetadata \<times> FileType, 'tag) sinkFun"
  exportTrackMetadataIntoTag :: "TrackMetadata \<Rightarrow> 'tag \<Rightarrow> 'tag"
  emptyTag :: "'tag"
  taglib_1_11_1 :: bool
  mpeg_save ::
    "32 word \<Rightarrow> ('tag, 'pic) TagLibFile \<Rightarrow> ('tag, 'pic) TagLibFile \<Rightarrow> ('tag, 'pic) TagLibFile"

text \<open>
  Modelled from the spec: \<open>taglib::xiph::importCoverImageFromPictureList\<close> is defined
  outside the sources at hand. By the spec it yields the first usable picture-list entry;
  the result is the null image when no entry is usable.
\<close>

fun importCoverImageFromPictureList :: "('pic \<Rightarrow> 'img option) \<Rightarrow> 'pic list \<Rightarrow> 'img QImage" where
  "importCoverImageFromPictureList load [] = None"
| "importCoverImageFromPictureList load (p # ps) =
     (case load p of
        Some img \<Rightarrow> Some img
      | None \<Rightarrow> importCoverImageFromPictureList load ps)"

section \<open>The filesystem\<close>

text \<open>
  One file on disk: what TagLib reads when it opens the file, its size in bytes, whether
  \<open>QFileInfo::isWritable\<close> holds for it, and its time of last modification.
\<close>

record ('tag, 'pic) FileEntry =
  contents :: "('tag, 'pic) TagLibFile"
  fileSize :: nat
  writable :: bool
  lastModified :: nat

text \<open>
  The calls that the source makes through \<open>QFileInfo\<close> and \<open>QFile\<close>, and the \<open>save\<close> of a
  TagLib file object, in the order made.
\<close>

datatype FsCall =
  IsWritable string
  | Copy string string
  | Exists string
  | Size string
  | Remove string
  | Rename string string
  | Save string

text \<open>
  The filesystem: the files by name, the calls made so far, and the outcome that the
  environment has decided for the coming fallible calls (copy, rename, remove, save):
  each such call takes the head of \<open>faults\<close>, and \<open>True\<close> makes it fail for a reason
  outside the program (disk full, permission lost, device gone). With no entry left, a
  call fails only for the reasons Qt documents.
\<close>

record ('tag, 'pic) World =
  files :: "string \<rightharpoonup> ('tag, 'pic) FileEntry"
  calls :: "FsCall list"
  faults :: "bool list"

definition called :: "FsCall \<Rightarrow> ('tag, 'pic) World \<Rightarrow> ('tag, 'pic) World" where
  "called c w = w\<lparr>calls := calls w @ [c]\<rparr>"

definition nextFault :: "('tag, 'pic) World \<Rightarrow> bool \<times> ('tag, 'pic) World" where
  "nextFault w =
     (case faults w of
        [] \<Rightarrow> (False, w)
      | b # bs \<Rightarrow> (b, w\<lparr>faults := bs\<rparr>))"

text \<open>\<open>QFileInfo(name).isWritable()\<close>: false for a file that does not exist.\<close>

definition QFileInfo_isWritable ::
  "string \<Rightarrow> ('tag, 'pic) World \<Rightarrow> bool \<times> ('tag, 'pic) World" where
  "QFileInfo_isWritable name w =
     ((case files w name of None \<Rightarrow> False | Some e \<Rightarrow> writable e),
      called (IsWritable name) w)"

definition QFile_exists :: "string \<Rightarrow> ('tag, 'pic) World \<Rightarrow> bool \<times> ('tag, 'pic) World" where
  "QFile_exists name w = (files w name \<noteq> None, called (Exists name) w)"

text \<open>\<open>QFile::size()\<close>: 0 for a file that does not exist.\<close>

definition QFile_size :: "string \<Rightarrow> ('tag, 'pic) World \<Rightarrow> nat \<times> ('tag, 'pic) World" where
  "QFile_size name w =
     ((case files w name of None \<Rightarrow> 0 | Some e \<Rightarrow> fileSize e), called (Size name) w)"

text \<open>
  \<open>QFile::copy(newName)\<close>: fails when the source does not exist or a file named
  \<open>newName\<close> exists already (Qt does not overwrite), or by a fault.
\<close>

definition QFile_copy ::
  "string \<Rightarrow> string \<Rightarrow> ('tag, 'pic) World \<Rightarrow> bool \<times> ('tag, 'pic) World" where
  "QFile_copy name newName w =
     (case nextFault (called (Copy name newName) w) of (fault, w') \<Rightarrow>
        (case files w' name of
           None \<Rightarrow> (False, w')
         | Some e \<Rightarrow>
             if fault \<or> files w' newName \<noteq> None then (False, w')
             else (True, w'\<lparr>files := (files w')(newName \<mapsto> e)\<rparr>)))"

text \<open>\<open>QFile::remove()\<close>: fails when the file does not exist, or by a fault.\<close>

definition QFile_remove :: "string \<Rightarrow> ('tag, 'pic) World \<Rightarrow> bool \<times> ('tag, 'pic) World" where
  "QFile_remove name w =
     (case nextFault (called (Remove name) w) of (fault, w') \<Rightarrow>
        if fault \<or> files w' name = None then (False, w')
        else (True, w'\<lparr>files := (files w')(name := None)\<rparr>))"

text \<open>
  \<open>QFile::rename(newName)\<close>: fails when the file does not exist or a file named
  \<open>newName\<close> exists already ("otherwise renaming fails", as the source notes), or by a
  fault.
\<close>

definition QFile_rename ::
  "string \<Rightarrow> string \<Rightarrow> ('tag, 'pic) World \<Rightarrow> bool \<times> ('tag, 'pic) World" where
  "QFile_rename name newName w =
     (case nextFault (called (Rename name newName) w) of (fault, w') \<Rightarrow>
        (case files w' name of
           None \<Rightarrow> (False, w')
         | Some e \<Rightarrow>
             if fault \<or> files w' newName \<noteq> None then (False, w')
             else (True, w'\<lparr>files := (files w')(name := None, newName \<mapsto> e)\<rparr>)))"

text \<open>
  The constructor of a TagLib file class: the object read from the file, or an object that
  is not open and holds no tag when the file does not exist.
\<close>

definition closedFile :: "('tag, 'pic) TagLibFile" where
  "closedFile =
     \<lparr>isOpen = False, ID3v2Tag = None, APETag = None, ID3v1Tag = None, tag = None,
      MP4Tag = None, xiphComment = None, InfoTag = None, pictureList = [], chunks = []\<rparr>"

definition TagLib_File :: "string \<Rightarrow> ('tag, 'pic) World \<Rightarrow> ('tag, 'pic) TagLibFile" where
  "TagLib_File fileName w =
     (case files w fileName of None \<Rightarrow> closedFile | Some e \<Rightarrow> contents e)"

text \<open>
  Modelled from the spec: \<open>MetadataSource::getFileSynchronizedAt\<close> is defined outside the
  sources at hand. By the spec it is the last-modification time that the filesystem
  reports for the file, invalid (\<open>None\<close>) when the file cannot be examined.
\<close>

definition getFileSynchronizedAt :: "string \<Rightarrow> ('tag, 'pic) World \<Rightarrow> nat option" where
  "getFileSynchronizedAt fileName w = map_option lastModified (files w fileName)"

text \<open>The object \<open>MetadataSourceTagLib\<close>: a file name and the type detected for it.\<close>

record MetadataSourceTagLib =
  m_fileName :: string
  m_fileType :: FileType

section \<open>Import\<close>

text \<open>
  The library calls of one import, in the order made: reading the audio properties, the
  test for a tag container, and the readers. They say which containers an import looked
  for and which it read.
\<close>

datatype LibCall =
  ReadAudioProperties
  | HasTag TagContainerKind
  | ImportTrackMetadata TagContainerKind
  | ImportCoverImage TagContainerKind
  | ImportPictureList

text \<open>
  What an import leaves behind: the pointees of \<open>pTrackMetadata\<close> and \<open>pCoverImage\<close>
  (\<open>None\<close> for a null pointer) and the library calls made.
\<close>

record 'img Sinks =
  metadataSink :: "TrackMetadata option"
  coverSink :: "'img QImage option"
  libCalls :: "LibCall list"

text \<open>
  One \<open>case\<close> block of the \<open>switch\<close> either returns a result or leaves the \<open>switch\<close> by
  \<open>break\<close>.
\<close>

datatype 'img Flow = Return ImportResult "'img Sinks" | Break "'img Sinks"

text \<open>\<open>AiffFile::decodeChunkText\<close>: Latin-1 bytes are the characters.\<close>

definition decodeChunkText :: "string \<Rightarrow> string" where
  "decodeChunkText chunkData = chunkData"

text \<open>
  The loop of \<open>AiffFile::importTrackMetadataFromTextChunks\<close> over the chunks from index
  \<open>i\<close> on, with the metadata and the flag \<open>imported\<close> as they stand.
\<close>

fun textChunksLoop ::
  "(string \<times> string) list \<Rightarrow> TrackMetadata \<Rightarrow> bool \<Rightarrow> TrackMetadata \<times> bool" where
  "textChunksLoop [] md imported = (md, imported)"
| "textChunksLoop ((chunkId, chunkData) # rest) md imported =
     (if chunkId = ''NAME'' then
        textChunksLoop rest (md\<lparr>title := decodeChunkText chunkData\<rparr>) True
      else if chunkId = ''AUTH'' then
        textChunksLoop rest (md\<lparr>artist := decodeChunkText chunkData\<rparr>) True
      else if chunkId = ''ANNO'' then
        textChunksLoop rest (md\<lparr>comment := decodeChunkText chunkData\<rparr>) True
      else textChunksLoop rest md imported)"

definition importTrackMetadataFromTextChunks ::
  "('tag, 'pic) TagLibFile \<Rightarrow> TrackMetadata option \<Rightarrow> bool \<times> TrackMetadata option" where
  "importTrackMetadataFromTextChunks file pTrackMetadata =
     (case pTrackMetadata of
        None \<Rightarrow> (False, None)
      | Some md \<Rightarrow>
          (case textChunksLoop (chunks file) md False of
             (md', imported) \<Rightarrow> (imported, Some md')))"

text \<open>
  The \<open>case\<close> blocks of \<open>MetadataSourceTagLib::importTrackMetadataAndCoverImage\<close>, one
  definition each. \<open>file\<close> is the TagLib object constructed from \<open>m_fileName\<close>. A test
  such as \<open>taglib::hasID3v2Tag(file)\<close> followed by the accessor \<open>file.ID3v2Tag()\<close> is the
  \<open>case\<close> on the accessor's result.
\<close>

definition importMP3 ::
  "('tag, 'img, 'pic) TagLibApi \<Rightarrow> ('tag, 'pic) TagLibFile \<Rightarrow> TrackMetadata option \<Rightarrow>
   'img QImage option \<Rightarrow> bool \<Rightarrow> 'img Flow" where
  "importMP3 lib file pTrackMetadata pCoverImage resetMissingTagMetadata =
     (case callSink (readAudioPropertiesFromFile lib) pTrackMetadata file of (ok, md) \<Rightarrow>
        if \<not> ok then
          Break \<lparr>metadataSink = md, coverSink = pCoverImage,
                 libCalls = [ReadAudioProperties]\<rparr>
        else
          (case ID3v2Tag file of
             Some pTag \<Rightarrow>
               (case callSink (id3v2_importCoverImageFromTag lib) pCoverImage pTag of
                  (imported, cover) \<Rightarrow>
                    Return ImportResult.Succeeded
                      \<lparr>metadataSink =
                         map_option
                           (id3v2_importTrackMetadataFromTag lib pTag resetMissingTagMetadata) md,
                       coverSink = cover,
                       libCalls = [ReadAudioProperties, HasTag FrameTag,
                         ImportTrackMetadata FrameTag, ImportCoverImage FrameTag]\<rparr>)
           | None \<Rightarrow>
               (case APETag file of
                  Some pTag \<Rightarrow>
                    (case callSink (ape_importCoverImageFromTag lib) pCoverImage pTag of
                       (imported, cover) \<Rightarrow>
                         Return ImportResult.Succeeded
                           \<lparr>metadataSink =
                              map_option
                                (ape_importTrackMetadataFromTag lib pTag resetMissingTagMetadata)
                                md,
                            coverSink = cover,
                            libCalls = [ReadAudioProperties, HasTag FrameTag, HasTag KeyValueTag,
                              ImportTrackMetadata KeyValueTag, ImportCoverImage KeyValueTag]\<rparr>)
                | None \<Rightarrow>
                    if hasID3v1Tag file then
                      (case tag file of
                         Some pTag \<Rightarrow>
                           Return ImportResult.Succeeded
                             \<lparr>metadataSink =
                                map_option (importTrackMetadataFromTag lib pTag) md,
                              coverSink = pCoverImage,
                              libCalls = [ReadAudioProperties, HasTag FrameTag,
                                HasTag KeyValueTag, HasTag LegacyFrameTag,
                                ImportTrackMetadata LegacyFrameTag]\<rparr>
                       | None \<Rightarrow>
                           Break \<lparr>metadataSink = md, coverSink = pCoverImage,
                                  libCalls = [ReadAudioProperties, HasTag FrameTag,
                                    HasTag KeyValueTag, HasTag LegacyFrameTag]\<rparr>)
                    else
                      Break \<lparr>metadataSink = md, coverSink = pCoverImage,
                             libCalls = [ReadAudioProperties, HasTag FrameTag,
                               HasTag KeyValueTag, HasTag LegacyFrameTag]\<rparr>)))"

definition importMP4 ::
  "('tag, 'img, 'pic) TagLibApi \<Rightarrow> ('tag, 'pic) TagLibFile \<Rightarrow> TrackMetadata option \<Rightarrow>
   'img QImage option \<Rightarrow> bool \<Rightarrow> 'img Flow" where
  "importMP4 lib file pTrackMetadata pCoverImage resetMissingTagMetadata =
     (case callSink (readAudioPropertiesFromFile lib) pTrackMetadata file of (ok, md) \<Rightarrow>
        if \<not> ok then
          Break \<lparr>metadataSink = md, coverSink = pCoverImage,
                 libCalls = [ReadAudioProperties]\<rparr>
        else
          (case MP4Tag file of
             Some pTag \<Rightarrow>
               (case callSink (mp4_importCoverImageFromTag lib) pCoverImage pTag of
                  (imported, cover) \<Rightarrow>
                    Return ImportResult.Succeeded
                      \<lparr>metadataSink =
                         map_option
                           (mp4_importTrackMetadataFromTag lib pTag resetMissingTagMetadata) md,
                       coverSink = cover,
                       libCalls = [ReadAudioProperties, HasTag AtomTag,
                         ImportTrackMetadata AtomTag, ImportCoverImage AtomTag]\<rparr>)
           | None \<Rightarrow>
               Break \<lparr>metadataSink = md, coverSink = pCoverImage,
                      libCalls = [ReadAudioProperties, HasTag AtomTag]\<rparr>))"

text \<open>
  The FLAC block up to the picture-list fallback: the values of \<open>importSucceeded\<close> and
  \<open>coverImageImported\<close>, and the sinks, after the two tag tests.
\<close>

definition importFLACTags ::
  "('tag, 'img, 'pic) TagLibApi \<Rightarrow> ('tag, 'pic) TagLibFile \<Rightarrow> TrackMetadata option \<Rightarrow>
   'img QImage option \<Rightarrow> bool \<Rightarrow> bool \<times> bool \<times> 'img Sinks" where
  "importFLACTags lib file md pCoverImage resetMissingTagMetadata =
     (case xiphComment file of
        Some pTag \<Rightarrow>
          (case callSink (xiph_importCoverImageFromTag lib) pCoverImage pTag of
             (coverImageImported, cover) \<Rightarrow>
               (True, coverImageImported,
                \<lparr>metadataSink =
                   map_option
                     (xiph_importTrackMetadataFromTag lib pTag FLAC resetMissingTagMetadata) md,
                 coverSink = cover,
                 libCalls = [ReadAudioProperties, HasTag CommentBlockTag,
                   ImportTrackMetadata CommentBlockTag, ImportCoverImage CommentBlockTag]\<rparr>))
      | None \<Rightarrow>
          (case ID3v2Tag file of
             Some pTag \<Rightarrow>
               (case callSink (id3v2_importCoverImageFromTag lib) pCoverImage pTag of
                  (coverImageImported, cover) \<Rightarrow>
                    (True, coverImageImported,
                     \<lparr>metadataSink =
                        map_option
                          (id3v2_importTrackMetadataFromTag lib pTag resetMissingTagMetadata) md,
                      coverSink = cover,
                      libCalls = [ReadAudioProperties, HasTag CommentBlockTag, HasTag FrameTag,
                        ImportTrackMetadata FrameTag, ImportCoverImage FrameTag]\<rparr>))
           | None \<Rightarrow>
               (False, False,
                \<lparr>metadataSink = md, coverSink = pCoverImage,
                 libCalls = [ReadAudioProperties, HasTag CommentBlockTag, HasTag FrameTag]\<rparr>)))"

definition importFLAC ::
  "('tag, 'img, 'pic) TagLibApi \<Rightarrow> ('tag, 'pic) TagLibFile \<Rightarrow> TrackMetadata option \<Rightarrow>
   'img QImage option \<Rightarrow> bool \<Rightarrow> 'img Flow" where
  "importFLAC lib file pTrackMetadata pCoverImage resetMissingTagMetadata =
     (case callSink (readAudioPropertiesFromFile lib) pTrackMetadata file of (ok, md) \<Rightarrow>
        if \<not> ok then
          Break \<lparr>metadataSink = md, coverSink = pCoverImage,
                 libCalls = [ReadAudioProperties]\<rparr>
        else
          (case importFLACTags lib file md pCoverImage resetMissingTagMetadata of
             (importSucceeded, coverImageImported, s) \<Rightarrow>
               (let s' =
                  (if pCoverImage \<noteq> None \<and> importSucceeded \<and> \<not> coverImageImported then
                     s\<lparr>coverSink :=
                         Some (importCoverImageFromPictureList (loadImage lib)
                                 (pictureList file)),
                       libCalls := libCalls s @ [ImportPictureList]\<rparr>
                   else s)
                in if importSucceeded then Return ImportResult.Succeeded s' else Break s')))"

text \<open>The OGG and the OPUS block differ in the file type handed to the reader only.\<close>

definition importOgg ::
  "FileType \<Rightarrow> ('tag, 'img, 'pic) TagLibApi \<Rightarrow> ('tag, 'pic) TagLibFile \<Rightarrow>
   TrackMetadata option \<Rightarrow> 'img QImage option \<Rightarrow> bool \<Rightarrow> 'img Flow" where
  "importOgg fileType lib file pTrackMetadata pCoverImage resetMissingTagMetadata =
     (case callSink (readAudioPropertiesFromFile lib) pTrackMetadata file of (ok, md) \<Rightarrow>
        if \<not> ok then
          Break \<lparr>metadataSink = md, coverSink = pCoverImage,
                 libCalls = [ReadAudioProperties]\<rparr>
        else
          (case xiphComment file of
             Some pTag \<Rightarrow>
               (case callSink (xiph_importCoverImageFromTag lib) pCoverImage pTag of
                  (imported, cover) \<Rightarrow>
                    Return ImportResult.Succeeded
                      \<lparr>metadataSink =
                         map_option
                           (xiph_importTrackMetadataFromTag lib pTag fileType
                              resetMissingTagMetadata) md,
                       coverSink = cover,
                       libCalls = [ReadAudioProperties, HasTag CommentBlockTag,
                         ImportTrackMetadata CommentBlockTag, ImportCoverImage CommentBlockTag]\<rparr>)
           | None \<Rightarrow>
               Break \<lparr>metadataSink = md, coverSink = pCoverImage,
                      libCalls = [ReadAudioProperties, HasTag CommentBlockTag]\<rparr>))"

definition importWV ::
  "('tag, 'img, 'pic) TagLibApi \<Rightarrow> ('tag, 'pic) TagLibFile \<Rightarrow> TrackMetadata option \<Rightarrow>
   'img QImage option \<Rightarrow> bool \<Rightarrow> 'img Flow" where
  "importWV lib file pTrackMetadata pCoverImage resetMissingTagMetadata =
     (case callSink (readAudioPropertiesFromFile lib) pTrackMetadata file of (ok, md) \<Rightarrow>
        if \<not> ok then
          Break \<lparr>metadataSink = md, coverSink = pCoverImage,
                 libCalls = [ReadAudioProperties]\<rparr>
        else
          (case APETag file of
             Some pTag \<Rightarrow>
               (case callSink (ape_importCoverImageFromTag lib) pCoverImage pTag of
                  (imported, cover) \<Rightarrow>
                    Return ImportResult.Succeeded
                      \<lparr>metadataSink =
                         map_option
                           (ape_importTrackMetadataFromTag lib pTag resetMissingTagMetadata) md,
                       coverSink = cover,
                       libCalls = [ReadAudioProperties, HasTag KeyValueTag,
                         ImportTrackMetadata KeyValueTag, ImportCoverImage KeyValueTag]\<rparr>)
           | None \<Rightarrow>
               Break \<lparr>metadataSink = md, coverSink = pCoverImage,
                      libCalls = [ReadAudioProperties, HasTag KeyValueTag]\<rparr>))"

definition importWAV ::
  "('tag, 'img, 'pic) TagLibApi \<Rightarrow> ('tag, 'pic) TagLibFile \<Rightarrow> TrackMetadata option \<Rightarrow>
   'img QImage option \<Rightarrow> bool \<Rightarrow> 'img Flow" where
  "importWAV lib file pTrackMetadata pCoverImage resetMissingTagMetadata =
     (case callSink (readAudioPropertiesFromFile lib) pTrackMetadata file of (ok, md) \<Rightarrow>
        if \<not> ok then
          Break \<lparr>metadataSink = md, coverSink = pCoverImage,
                 libCalls = [ReadAudioProperties]\<rparr>
        else
          (case ID3v2Tag file of
             Some pTag \<Rightarrow>
               (case callSink (id3v2_importCoverImageFromTag lib) pCoverImage pTag of
                  (imported, cover) \<Rightarrow>
                    Return ImportResult.Succeeded
                      \<lparr>metadataSink =
                         map_option
                           (id3v2_importTrackMetadataFromTag lib pTag resetMissingTagMetadata) md,
                       coverSink = cover,
                       libCalls = [ReadAudioProperties, HasTag FrameTag,
                         ImportTrackMetadata FrameTag, ImportCoverImage FrameTag]\<rparr>)
           | None \<Rightarrow>
               (case InfoTag file of
                  Some pTag \<Rightarrow>
                    Return ImportResult.Succeeded
                      \<lparr>metadataSink =
                         map_option (riff_importTrackMetadataFromTag lib pTag) md,
                       coverSink = pCoverImage,
                       libCalls = [ReadAudioProperties, HasTag FrameTag, HasTag RiffInfoTag,
                         ImportTrackMetadata RiffInfoTag]\<rparr>
                | None \<Rightarrow>
                    Break \<lparr>metadataSink = md, coverSink = pCoverImage,
                           libCalls = [ReadAudioProperties, HasTag FrameTag,
                             HasTag RiffInfoTag]\<rparr>)))"

definition importAIFF ::
  "('tag, 'img, 'pic) TagLibApi \<Rightarrow> ('tag, 'pic) TagLibFile \<Rightarrow> TrackMetadata option \<Rightarrow>
   'img QImage option \<Rightarrow> bool \<Rightarrow> 'img Flow" where
  "importAIFF lib file pTrackMetadata pCoverImage resetMissingTagMetadata =
     (case callSink (readAudioPropertiesFromFile lib) pTrackMetadata file of (ok, md) \<Rightarrow>
        if \<not> ok then
          Break \<lparr>metadataSink = md, coverSink = pCoverImage,
                 libCalls = [ReadAudioProperties]\<rparr>
        else
          (case ID3v2Tag file of
             Some pTag \<Rightarrow>
               (case callSink (id3v2_importCoverImageFromTag lib) pCoverImage pTag of
                  (imported, cover) \<Rightarrow>
                    Return ImportResult.Succeeded
                      \<lparr>metadataSink =
                         map_option
                           (id3v2_importTrackMetadataFromTag lib pTag resetMissingTagMetadata) md,
                       coverSink = cover,
                       libCalls = [ReadAudioProperties, HasTag FrameTag,
                         ImportTrackMetadata FrameTag, ImportCoverImage FrameTag]\<rparr>)
           | None \<Rightarrow>
               (case importTrackMetadataFromTextChunks file md of
                  (imported, md') \<Rightarrow>
                    if imported then
                      Return ImportResult.Succeeded
                        \<lparr>metadataSink = md', coverSink = pCoverImage,
                         libCalls = [ReadAudioProperties, HasTag FrameTag,
                           ImportTrackMetadata PlainTextChunks]\<rparr>
                    else
                      Break \<lparr>metadataSink = md', coverSink = pCoverImage,
                             libCalls = [ReadAudioProperties, HasTag FrameTag,
                               ImportTrackMetadata PlainTextChunks]\<rparr>)))"

text \<open>\<open>MetadataSourceTagLib::afterImport\<close>: the result with the file's timestamp.\<close>

definition afterImport ::
  "MetadataSourceTagLib \<Rightarrow> ('tag, 'pic) World \<Rightarrow> ImportResult \<Rightarrow> ImportResult \<times> nat option" where
  "afterImport this w importResult =
     (importResult, getFileSynchronizedAt (m_fileName this) w)"

text \<open>
  \<open>MetadataSourceTagLib::importTrackMetadataAndCoverImage\<close>. \<open>VERIFY_OR_DEBUG_ASSERT\<close>
  runs its block when the condition fails. The \<open>default\<close> label returns
  \<open>ImportResult::Failed\<close>; a \<open>break\<close> reaches the \<open>return\<close> of \<open>ImportResult::Unavailable\<close>
  after the \<open>switch\<close>.
\<close>

definition importTrackMetadataAndCoverImage ::
  "('tag, 'img, 'pic) TagLibApi \<Rightarrow> MetadataSourceTagLib \<Rightarrow> ('tag, 'pic) World \<Rightarrow>
   TrackMetadata option \<Rightarrow> 'img QImage option \<Rightarrow> bool \<Rightarrow>
   (ImportResult \<times> nat option) \<times> 'img Sinks" where
  "importTrackMetadataAndCoverImage lib this w pTrackMetadata pCoverImage
     resetMissingTagMetadata =
     (if \<not> (pTrackMetadata \<noteq> None \<or> pCoverImage \<noteq> None) then
        (afterImport this w ImportResult.Unavailable,
         \<lparr>metadataSink = pTrackMetadata, coverSink = pCoverImage, libCalls = []\<rparr>)
      else
        (let file = TagLib_File (m_fileName this) w;
             flow =
               (case m_fileType this of
                  MP3 \<Rightarrow> importMP3 lib file pTrackMetadata pCoverImage resetMissingTagMetadata
                | MP4 \<Rightarrow> importMP4 lib file pTrackMetadata pCoverImage resetMissingTagMetadata
                | FLAC \<Rightarrow> importFLAC lib file pTrackMetadata pCoverImage resetMissingTagMetadata
                | OGG \<Rightarrow>
                    importOgg OGG lib file pTrackMetadata pCoverImage resetMissingTagMetadata
                | OPUS \<Rightarrow>
                    importOgg OPUS lib file pTrackMetadata pCoverImage resetMissingTagMetadata
                | WV \<Rightarrow> importWV lib file pTrackMetadata pCoverImage resetMissingTagMetadata
                | WAV \<Rightarrow> importWAV lib file pTrackMetadata pCoverImage resetMissingTagMetadata
                | AIFF \<Rightarrow> importAIFF lib file pTrackMetadata pCoverImage resetMissingTagMetadata
                | Unknown \<Rightarrow>
                    Return ImportResult.Failed
                      \<lparr>metadataSink = pTrackMetadata, coverSink = pCoverImage,
                       libCalls = []\<rparr>)
         in case flow of
              Return importResult s \<Rightarrow> (afterImport this w importResult, s)
            | Break s \<Rightarrow> (afterImport this w ImportResult.Unavailable, s)))"

section \<open>Tag savers\<close>

text \<open>
  The values of \<open>TagLib::MPEG::File::TagTypes\<close> that the source names, as TagLib declares
  them. The source keeps the mask in an \<open>int\<close> and only ever sets bits of it.
\<close>

definition NoTags :: "32 word" where
  "NoTags = 0"

definition ID3v1 :: "32 word" where
  "ID3v1 = 1"

definition ID3v2 :: "32 word" where
  "ID3v2 = 2"

definition APE :: "32 word" where
  "APE = 4"

text \<open>An accessor called with \<open>create = true\<close>: the tag of the file, or a new empty one.\<close>

definition getOrCreate :: "('tag, 'img, 'pic) TagLibApi \<Rightarrow> 'tag option \<Rightarrow> 'tag option" where
  "getOrCreate lib pTag = (case pTag of None \<Rightarrow> Some (emptyTag lib) | Some t \<Rightarrow> Some t)"

text \<open>
  \<open>MpegTagSaver::exportTrackMetadata\<close>: the mask of the modified tags and the file object
  as the function leaves it. With an APE tag, \<open>pID3v2Tag\<close> is the ID3v2 tag that exists
  or null; without one it is \<open>pFile->ID3v2Tag(true)\<close>.
\<close>

definition MpegTagSaver_exportTrackMetadata ::
  "('tag, 'img, 'pic) TagLibApi \<Rightarrow> ('tag, 'pic) TagLibFile \<Rightarrow> TrackMetadata \<Rightarrow>
   32 word \<times> ('tag, 'pic) TagLibFile" where
  "MpegTagSaver_exportTrackMetadata lib pFile trackMetadata =
     (if isOpen pFile then
        (case (if hasAPETag pFile then
                 (case callSink (ape_exportTrackMetadataIntoTag lib) (APETag pFile)
                         trackMetadata of
                    (modified, apeTag) \<Rightarrow>
                      (if modified then NoTags OR APE else NoTags,
                       pFile\<lparr>APETag := apeTag\<rparr>))
               else (NoTags, pFile\<lparr>ID3v2Tag := getOrCreate lib (ID3v2Tag pFile)\<rparr>)) of
           (modifiedTagsBitmask, file1) \<Rightarrow>
             (case callSink (id3v2_exportTrackMetadataIntoTag lib) (ID3v2Tag file1)
                     trackMetadata of
                (modified, id3v2Tag) \<Rightarrow>
                  (if modified then modifiedTagsBitmask OR ID3v2 else modifiedTagsBitmask,
                   file1\<lparr>ID3v2Tag := id3v2Tag\<rparr>)))
      else (NoTags, pFile))"

text \<open>
  Modelled from the spec: the accessor \<open>tag()\<close> of \<open>TagLib::MP4::File\<close> and of
  \<open>TagLib::RIFF::AIFF::File\<close>, which the savers of these two classes call without a test
  for the tag's presence. By the spec's table of mutation policies the atoms, and the
  FrameTag of an AIFF file, are updated when present and created when absent: the accessor
  yields the tag of the file, or a new empty one for a file without.
\<close>

definition tagAccessor :: "('tag, 'img, 'pic) TagLibApi \<Rightarrow> 'tag option \<Rightarrow> 'tag option" where
  "tagAccessor lib present = getOrCreate lib present"

text \<open>
  \<open>Mp4TagSaver::exportTrackMetadata\<close>, on \<open>pFile->tag()\<close>; \<open>&&\<close> does not call the exporter
  on a closed file.
\<close>

definition Mp4TagSaver_exportTrackMetadata ::
  "('tag, 'img, 'pic) TagLibApi \<Rightarrow> ('tag, 'pic) TagLibFile \<Rightarrow> TrackMetadata \<Rightarrow>
   bool \<times> ('tag, 'pic) TagLibFile" where
  "Mp4TagSaver_exportTrackMetadata lib pFile trackMetadata =
     (if isOpen pFile then
        (case callSink (mp4_exportTrackMetadataIntoTag lib) (tagAccessor lib (MP4Tag pFile))
                trackMetadata of
           (modified, mp4Tag) \<Rightarrow> (modified, pFile\<lparr>MP4Tag := mp4Tag\<rparr>))
      else (False, pFile))"

text \<open>
  \<open>FlacTagSaver::exportTrackMetadata\<close>. With an ID3v2 tag, \<open>pXiphComment\<close> is the
  VorbisComment that exists or null; without one it is \<open>pFile->xiphComment(true)\<close>.
\<close>

definition FlacTagSaver_exportTrackMetadata ::
  "('tag, 'img, 'pic) TagLibApi \<Rightarrow> ('tag, 'pic) TagLibFile \<Rightarrow> TrackMetadata \<Rightarrow>
   bool \<times> ('tag, 'pic) TagLibFile" where
  "FlacTagSaver_exportTrackMetadata lib pFile trackMetadata =
     (if isOpen pFile then
        (case (if hasID3v2Tag pFile then
                 (case callSink (id3v2_exportTrackMetadataIntoTag lib) (ID3v2Tag pFile)
                         trackMetadata of
                    (modified, id3v2Tag) \<Rightarrow> (modified, pFile\<lparr>ID3v2Tag := id3v2Tag\<rparr>))
               else (False, pFile\<lparr>xiphComment := getOrCreate lib (xiphComment pFile)\<rparr>)) of
           (modifiedTags, file1) \<Rightarrow>
             (case callSink (xiph_exportTrackMetadataIntoTag lib) (xiphComment file1)
                     (trackMetadata, FLAC) of
                (modified, xiph) \<Rightarrow>
                  (modifiedTags \<or> modified, file1\<lparr>xiphComment := xiph\<rparr>)))
      else (False, pFile))"

text \<open>
  \<open>OggTagSaver::exportTrackMetadata\<close>: compiled against TagLib 1.11.1 it exports nothing.
\<close>

definition OggTagSaver_exportTrackMetadata ::
  "('tag, 'img, 'pic) TagLibApi \<Rightarrow> ('tag, 'pic) TagLibFile \<Rightarrow> TrackMetadata \<Rightarrow>
   bool \<times> ('tag, 'pic) TagLibFile" where
  "OggTagSaver_exportTrackMetadata lib pFile trackMetadata =
     (if taglib_1_11_1 lib then (False, pFile)
      else if isOpen pFile then
        (case callSink (xiph_exportTrackMetadataIntoTag lib) (xiphComment pFile)
                (trackMetadata, OGG) of
           (modified, xiph) \<Rightarrow> (modified, pFile\<lparr>xiphComment := xiph\<rparr>))
      else (False, pFile))"

definition OpusTagSaver_exportTrackMetadata ::
  "('tag, 'img, 'pic) TagLibApi \<Rightarrow> ('tag, 'pic) TagLibFile \<Rightarrow> TrackMetadata \<Rightarrow>
   bool \<times> ('tag, 'pic) TagLibFile" where
  "OpusTagSaver_exportTrackMetadata lib pFile trackMetadata =
     (if isOpen pFile then
        (case callSink (xiph_exportTrackMetadataIntoTag lib) (xiphComment pFile)
                (trackMetadata, OPUS) of
           (modified, xiph) \<Rightarrow> (modified, pFile\<lparr>xiphComment := xiph\<rparr>))
      else (False, pFile))"

text \<open>\<open>WavPackTagSaver::exportTrackMetadata\<close>, on \<open>pFile->APETag(true)\<close>.\<close>

definition WavPackTagSaver_exportTrackMetadata ::
  "('tag, 'img, 'pic) TagLibApi \<Rightarrow> ('tag, 'pic) TagLibFile \<Rightarrow> TrackMetadata \<Rightarrow>
   bool \<times> ('tag, 'pic) TagLibFile" where
  "WavPackTagSaver_exportTrackMetadata lib pFile trackMetadata =
     (if isOpen pFile then
        (case callSink (ape_exportTrackMetadataIntoTag lib)
                (getOrCreate lib (APETag pFile)) trackMetadata of
           (modified, apeTag) \<Rightarrow> (modified, pFile\<lparr>APETag := apeTag\<rparr>))
      else (False, pFile))"

text \<open>
  \<open>exportTrackMetadataIntoRIFFTag\<close>: nothing for a null pointer, else the generic
  exporter (with \<open>WriteTagFlag::OmitNone\<close>) and \<open>true\<close>.
\<close>

definition exportTrackMetadataIntoRIFFTag ::
  "('tag, 'img, 'pic) TagLibApi \<Rightarrow> 'tag option \<Rightarrow> TrackMetadata \<Rightarrow> bool \<times> 'tag option" where
  "exportTrackMetadataIntoRIFFTag lib pTag trackMetadata =
     (case pTag of
        None \<Rightarrow> (False, None)
      | Some t \<Rightarrow> (True, Some (exportTrackMetadataIntoTag lib trackMetadata t)))"

text \<open>
  \<open>WavTagSaver::exportTrackMetadata\<close>. With an ID3v2 tag, \<open>pInfoTag\<close> is the Info tag that
  exists or null; without one it is \<open>pFile->InfoTag()\<close>, which the source takes to get or
  create the tag.
\<close>

definition WavTagSaver_exportTrackMetadata ::
  "('tag, 'img, 'pic) TagLibApi \<Rightarrow> ('tag, 'pic) TagLibFile \<Rightarrow> TrackMetadata \<Rightarrow>
   bool \<times> ('tag, 'pic) TagLibFile" where
  "WavTagSaver_exportTrackMetadata lib pFile trackMetadata =
     (if isOpen pFile then
        (case (if hasID3v2Tag pFile then
                 (case callSink (id3v2_exportTrackMetadataIntoTag lib) (ID3v2Tag pFile)
                         trackMetadata of
                    (modified, id3v2Tag) \<Rightarrow> (modified, pFile\<lparr>ID3v2Tag := id3v2Tag\<rparr>))
               else (False, pFile\<lparr>InfoTag := getOrCreate lib (InfoTag pFile)\<rparr>)) of
           (modifiedTags, file1) \<Rightarrow>
             (case exportTrackMetadataIntoRIFFTag lib (InfoTag file1) trackMetadata of
                (modified, infoTag) \<Rightarrow>
                  (modifiedTags \<or> modified, file1\<lparr>InfoTag := infoTag\<rparr>)))
      else (False, pFile))"

text \<open>\<open>AiffTagSaver::exportTrackMetadata\<close>, on \<open>pFile->tag()\<close>, the ID3v2 tag of the file.\<close>

definition AiffTagSaver_exportTrackMetadata ::
  "('tag, 'img, 'pic) TagLibApi \<Rightarrow> ('tag, 'pic) TagLibFile \<Rightarrow> TrackMetadata \<Rightarrow>
   bool \<times> ('tag, 'pic) TagLibFile" where
  "AiffTagSaver_exportTrackMetadata lib pFile trackMetadata =
     (if isOpen pFile then
        (case callSink (id3v2_exportTrackMetadataIntoTag lib) (tagAccessor lib (ID3v2Tag pFile))
                trackMetadata of
           (modified, id3v2Tag) \<Rightarrow> (modified, pFile\<lparr>ID3v2Tag := id3v2Tag\<rparr>))
      else (False, pFile))"

text \<open>
  The subclasses of \<open>TagSaver\<close>. Each holds the name it opened, \<open>m_file\<close> and what its
  \<open>exportTrackMetadata\<close> returned: \<open>m_modifiedTagsBitmask\<close> for \<open>MpegTagSaver\<close>,
  \<open>m_modifiedTags\<close> for the others, whose \<open>hasModifiedTags\<close> and \<open>saveModifiedTags\<close> are
  alike.
\<close>

datatype ('tag, 'pic) TagSaver =
  MpegTagSaver string "('tag, 'pic) TagLibFile" "32 word"
  | OtherTagSaver string "('tag, 'pic) TagLibFile" bool

definition hasModifiedTags :: "('tag, 'pic) TagSaver \<Rightarrow> bool" where
  "hasModifiedTags saver =
     (case saver of
        MpegTagSaver name m_file m_modifiedTagsBitmask \<Rightarrow> m_modifiedTagsBitmask \<noteq> NoTags
      | OtherTagSaver name m_file m_modifiedTags \<Rightarrow> m_modifiedTags)"

text \<open>
  Modelled from the spec: \<open>TagLib::File::save\<close> flushes the changes to the file that the
  object was opened from, and reports whether that worked. It fails when the file is gone
  or not writable, or by a fault. \<open>update\<close> gives the new contents from the old ones. The
  file's time of last modification moves on; the size that TagLib leaves is not modelled,
  the source reads sizes only right after cloning.
\<close>

definition TagLib_save ::
  "string \<Rightarrow> (('tag, 'pic) TagLibFile \<Rightarrow> ('tag, 'pic) TagLibFile) \<Rightarrow> ('tag, 'pic) World \<Rightarrow>
   bool \<times> ('tag, 'pic) World" where
  "TagLib_save name update w =
     (case nextFault (called (Save name) w) of (fault, w') \<Rightarrow>
        (case files w' name of
           None \<Rightarrow> (False, w')
         | Some e \<Rightarrow>
             if fault \<or> \<not> writable e then (False, w')
             else
               (True,
                w'\<lparr>files := (files w')(name \<mapsto>
                     e\<lparr>contents := update (contents e),
                       lastModified := Suc (lastModified e)\<rparr>)\<rparr>)))"

text \<open>
  \<open>saveModifiedTags\<close>: \<open>MpegTagSaver\<close> calls \<open>m_file.save(m_modifiedTagsBitmask)\<close>, the
  other savers call \<open>m_file.save()\<close>, which writes the object.
\<close>

definition saveModifiedTags ::
  "('tag, 'img, 'pic) TagLibApi \<Rightarrow> ('tag, 'pic) TagSaver \<Rightarrow> ('tag, 'pic) World \<Rightarrow>
   bool \<times> ('tag, 'pic) World" where
  "saveModifiedTags lib saver w =
     (case saver of
        MpegTagSaver name m_file m_modifiedTagsBitmask \<Rightarrow>
          TagLib_save name (mpeg_save lib m_modifiedTagsBitmask m_file) w
      | OtherTagSaver name m_file m_modifiedTags \<Rightarrow> TagLib_save name (\<lambda>onDisk. m_file) w)"

text \<open>
  The \<open>switch\<close> of \<open>MetadataSourceTagLib::exportTrackMetadata\<close>: the saver constructed
  for the file type, which opens \<open>fileName\<close> and exports into the object at once, or
  nothing at the \<open>default\<close> label.
\<close>

definition makeTagSaver ::
  "('tag, 'img, 'pic) TagLibApi \<Rightarrow> FileType \<Rightarrow> string \<Rightarrow> TrackMetadata \<Rightarrow> ('tag, 'pic) World \<Rightarrow>
   ('tag, 'pic) TagSaver option" where
  "makeTagSaver lib fileType fileName trackMetadata w =
     (let m_file = TagLib_File fileName w;
          other = (\<lambda>r. case r of (modifiedTags, file') \<Rightarrow>
                     Some (OtherTagSaver fileName file' modifiedTags))
      in case fileType of
           MP3 \<Rightarrow>
             (case MpegTagSaver_exportTrackMetadata lib m_file trackMetadata of
                (modifiedTagsBitmask, file') \<Rightarrow>
                  Some (MpegTagSaver fileName file' modifiedTagsBitmask))
         | MP4 \<Rightarrow> other (Mp4TagSaver_exportTrackMetadata lib m_file trackMetadata)
         | FLAC \<Rightarrow> other (FlacTagSaver_exportTrackMetadata lib m_file trackMetadata)
         | OGG \<Rightarrow> other (OggTagSaver_exportTrackMetadata lib m_file trackMetadata)
         | OPUS \<Rightarrow> other (OpusTagSaver_exportTrackMetadata lib m_file trackMetadata)
         | WV \<Rightarrow> other (WavPackTagSaver_exportTrackMetadata lib m_file trackMetadata)
         | WAV \<Rightarrow> other (WavTagSaver_exportTrackMetadata lib m_file trackMetadata)
         | AIFF \<Rightarrow> other (AiffTagSaver_exportTrackMetadata lib m_file trackMetadata)
         | Unknown \<Rightarrow> None)"

section \<open>Writing safely\<close>

definition kExportTrackMetadataIntoTemporaryFile :: bool where
  "kExportTrackMetadataIntoTemporaryFile = True"

definition kSafelyWritableTempFileSuffix :: string where
  "kSafelyWritableTempFileSuffix = ''_temp''"

definition kSafelyWritableOrigFileSuffix :: string where
  "kSafelyWritableOrigFileSuffix = ''_orig''"

text \<open>
  The class \<open>SafelyWritableFile\<close>. Both names are null until the constructor has done all
  its work, and again after \<open>commit\<close> or \<open>cancel\<close>.
\<close>

record SafelyWritableFile =
  m_origFileName :: QString
  m_tempFileName :: QString

definition nullNames :: SafelyWritableFile where
  "nullNames = \<lparr>m_origFileName = None, m_tempFileName = None\<rparr>"

text \<open>The characters of a \<open>QString\<close>, none for the null string.\<close>

definition chars :: "QString \<Rightarrow> string" where
  "chars s = (case s of None \<Rightarrow> [] | Some cs \<Rightarrow> cs)"

text \<open>
  The constructor \<open>SafelyWritableFile(origFileName, useTemporaryFile)\<close>. The assertions
  (\<open>DEBUG_ASSERT\<close>) do nothing in a release build; \<open>VERIFY_OR_DEBUG_ASSERT\<close> runs its block
  when the sizes differ.
\<close>

definition SafelyWritableFile_new ::
  "string \<Rightarrow> bool \<Rightarrow> ('tag, 'pic) World \<Rightarrow> SafelyWritableFile \<times> ('tag, 'pic) World" where
  "SafelyWritableFile_new origFileName useTemporaryFile w =
     (case QFileInfo_isWritable origFileName w of (isWritable, w1) \<Rightarrow>
        if \<not> isWritable then (nullNames, w1)
        else if useTemporaryFile then
          (let tempFileName = origFileName @ kSafelyWritableTempFileSuffix
           in case QFile_copy origFileName tempFileName w1 of (copied, w2) \<Rightarrow>
                if \<not> copied then (nullNames, w2)
                else
                  (case QFile_size origFileName w2 of (origSize, w3) \<Rightarrow>
                     (case QFile_size tempFileName w3 of (tempSize, w4) \<Rightarrow>
                        if \<not> (origSize = tempSize) then
                          (case QFile_exists tempFileName w4 of (tempExists, w5) \<Rightarrow>
                             if tempExists then
                               (case QFile_remove tempFileName w5 of (removed, w6) \<Rightarrow>
                                  (nullNames, w6))
                             else (nullNames, w5))
                        else
                          (\<lparr>m_origFileName = Some origFileName,
                            m_tempFileName = Some tempFileName\<rparr>, w4))))
        else (\<lparr>m_origFileName = Some origFileName, m_tempFileName = None\<rparr>, w1))"

definition SafelyWritableFile_fileName :: "SafelyWritableFile \<Rightarrow> QString" where
  "SafelyWritableFile_fileName this =
     (if isNull (m_tempFileName this) then m_origFileName this else m_tempFileName this)"

definition isReady :: "SafelyWritableFile \<Rightarrow> bool" where
  "isReady this = (\<not> isEmpty (SafelyWritableFile_fileName this))"

text \<open>
  The end of \<open>commit\<close> in the build without \<open>__WINDOWS__\<close>, from the second
  \<open>oldFile.exists()\<close> on. \<open>oldFileName\<close> is the name that the object \<open>oldFile\<close> has by
  then: the backup name after a successful \<open>oldFile.rename(backupFileName)\<close>, the original
  name when there was no original file to rename.
\<close>

definition commitRemoveBackup ::
  "SafelyWritableFile \<Rightarrow> string \<Rightarrow> ('tag, 'pic) World \<Rightarrow>
   bool \<times> SafelyWritableFile \<times> ('tag, 'pic) World" where
  "commitRemoveBackup this oldFileName w =
     (case QFile_exists oldFileName w of (oldExists, w1) \<Rightarrow>
        if oldExists then
          (case QFile_remove oldFileName w1 of (removed, w2) \<Rightarrow>
             if \<not> removed then (False, this, w2)
             else (True, nullNames, w2))
        else (True, nullNames, w1))"

text \<open>
  The middle of \<open>commit\<close>: \<open>newFile.rename(m_origFileName)\<close> and, when that fails while
  \<open>oldFile\<close> exists, the attempt to put the original back. When it fails and \<open>oldFile\<close>
  does not exist, control goes on to the end of \<open>commit\<close>.
\<close>

definition commitReplace ::
  "SafelyWritableFile \<Rightarrow> string \<Rightarrow> string \<Rightarrow> string \<Rightarrow> ('tag, 'pic) World \<Rightarrow>
   bool \<times> SafelyWritableFile \<times> ('tag, 'pic) World" where
  "commitReplace this tempFileName origFileName oldFileName w =
     (case QFile_rename tempFileName origFileName w of (renamed, w1) \<Rightarrow>
        if \<not> renamed then
          (case QFile_exists oldFileName w1 of (oldExists, w2) \<Rightarrow>
             if oldExists then
               (case QFile_rename oldFileName origFileName w2 of (restored, w3) \<Rightarrow>
                  (False, this, w3))
             else commitRemoveBackup this oldFileName w2)
        else commitRemoveBackup this oldFileName w1)"

text \<open>
  \<open>SafelyWritableFile::commit\<close> in the build without \<open>__WINDOWS__\<close>: the result, the
  object and the filesystem afterwards.
\<close>

definition commit ::
  "SafelyWritableFile \<Rightarrow> ('tag, 'pic) World \<Rightarrow>
   bool \<times> SafelyWritableFile \<times> ('tag, 'pic) World" where
  "commit this w =
     (case m_tempFileName this of
        None \<Rightarrow> (True, this, w)
      | Some tempFileName \<Rightarrow>
          (let origFileName = chars (m_origFileName this);
               backupFileName = origFileName @ kSafelyWritableOrigFileSuffix
           in case QFile_exists tempFileName w of (newExists, w1) \<Rightarrow>
                if \<not> newExists then (False, this, w1)
                else
                  (case QFile_exists origFileName w1 of (oldExists, w2) \<Rightarrow>
                     if oldExists then
                       (case QFile_rename origFileName backupFileName w2 of (renamed, w3) \<Rightarrow>
                          if \<not> renamed then (False, this, w3)
                          else commitReplace this tempFileName origFileName backupFileName w3)
                     else commitReplace this tempFileName origFileName origFileName w2)))"

text \<open>\<open>SafelyWritableFile::cancel\<close>, which returns nothing.\<close>

definition cancel ::
  "SafelyWritableFile \<Rightarrow> ('tag, 'pic) World \<Rightarrow> SafelyWritableFile \<times> ('tag, 'pic) World" where
  "cancel this w =
     (case m_tempFileName this of
        None \<Rightarrow> (this, w)
      | Some tempFileName \<Rightarrow>
          (case QFile_exists tempFileName w of (tempExists, w1) \<Rightarrow>
             if tempExists then
               (case QFile_remove tempFileName w1 of (removed, w2) \<Rightarrow> (nullNames, w2))
             else (nullNames, w1)))"

text \<open>The destructor \<open>~SafelyWritableFile\<close> calls \<open>cancel\<close>.\<close>

definition SafelyWritableFile_delete ::
  "SafelyWritableFile \<Rightarrow> ('tag, 'pic) World \<Rightarrow> ('tag, 'pic) World" where
  "SafelyWritableFile_delete this w = snd (cancel this w)"

section \<open>Export\<close>

text \<open>\<open>MetadataSourceTagLib::afterExport\<close>: the result with the file's timestamp.\<close>

definition afterExport ::
  "MetadataSourceTagLib \<Rightarrow> ('tag, 'pic) World \<Rightarrow> ExportResult \<Rightarrow> ExportResult \<times> nat option" where
  "afterExport this w exportResult =
     (exportResult, getFileSynchronizedAt (m_fileName this) w)"

text \<open>
  \<open>MetadataSourceTagLib::exportTrackMetadata\<close>: the returned pair and the filesystem
  after the call. Each \<open>return\<close> computes its value first; then \<open>safelyWritableFile\<close> goes
  out of scope and its destructor runs. \<open>pTagSaver.reset()\<close> closes the file handles and
  touches no file.
\<close>

definition exportTrackMetadata ::
  "('tag, 'img, 'pic) TagLibApi \<Rightarrow> MetadataSourceTagLib \<Rightarrow> TrackMetadata \<Rightarrow>
   ('tag, 'pic) World \<Rightarrow> (ExportResult \<times> nat option) \<times> ('tag, 'pic) World" where
  "exportTrackMetadata lib this trackMetadata w =
     (case SafelyWritableFile_new (m_fileName this) kExportTrackMetadataIntoTemporaryFile w of
        (safelyWritableFile, w1) \<Rightarrow>
          if \<not> isReady safelyWritableFile then
            (afterExport this w1 ExportResult.Failed,
             SafelyWritableFile_delete safelyWritableFile w1)
          else
            (case makeTagSaver lib (m_fileType this)
                    (chars (SafelyWritableFile_fileName safelyWritableFile)) trackMetadata w1 of
               None \<Rightarrow>
                 (afterExport this w1 ExportResult.Unsupported,
                  SafelyWritableFile_delete safelyWritableFile w1)
             | Some pTagSaver \<Rightarrow>
                 if hasModifiedTags pTagSaver then
                   (case saveModifiedTags lib pTagSaver w1 of (saved, w2) \<Rightarrow>
                      if saved then
                        (case commit safelyWritableFile w2 of
                           (committed, safelyWritableFile', w3) \<Rightarrow>
                             if committed then
                               (afterExport this w3 ExportResult.Succeeded,
                                SafelyWritableFile_delete safelyWritableFile' w3)
                             else
                               (afterExport this w3 ExportResult.Failed,
                                SafelyWritableFile_delete safelyWritableFile' w3))
                      else
                        (afterExport this w2 ExportResult.Failed,
                         SafelyWritableFile_delete safelyWritableFile w2))
                 else
                   (afterExport this w1 ExportResult.Failed,
                    SafelyWritableFile_delete safelyWritableFile w1)))"

section \<open>Notions that the properties speak of\<close>

text \<open>
  Whether the text chunks of an AIFF file hold anything that
  \<open>importTrackMetadataFromTextChunks\<close> reads.
\<close>

definition hasTextChunks :: "('tag, 'pic) TagLibFile \<Rightarrow> bool" where
  "hasTextChunks file =
     (\<exists>c \<in> set (chunks file). fst c = ''NAME'' \<or> fst c = ''AUTH'' \<or> fst c = ''ANNO'')"

text \<open>A file without any tag container.\<close>

definition noTagContainers :: "('tag, 'pic) TagLibFile \<Rightarrow> bool" where
  "noTagContainers file =
     (ID3v2Tag file = None \<and> APETag file = None \<and> ID3v1Tag file = None \<and>
      MP4Tag file = None \<and> xiphComment file = None \<and> InfoTag file = None \<and>
      \<not> hasTextChunks file)"

text \<open>The containers that an import tested for, and those it read, in order.\<close>

definition probedKinds :: "LibCall list \<Rightarrow> TagContainerKind list" where
  "probedKinds cs = List.map_filter (\<lambda>c. case c of HasTag k \<Rightarrow> Some k | _ \<Rightarrow> None) cs"

definition readKinds :: "LibCall list \<Rightarrow> TagContainerKind list" where
  "readKinds cs =
     List.map_filter
       (\<lambda>c. case c of
               ImportTrackMetadata k \<Rightarrow> Some k
             | ImportCoverImage k \<Rightarrow> Some k
             | _ \<Rightarrow> None) cs"

text \<open>
  What the reader of cover images reports for the container of kind \<open>k\<close> in a FLAC file,
  when called with \<open>pCoverImage\<close>: whether it found a cover image in that container.
\<close>

definition tagCoverFound ::
  "('tag, 'img, 'pic) TagLibApi \<Rightarrow> ('tag, 'pic) TagLibFile \<Rightarrow> 'img QImage option \<Rightarrow>
   TagContainerKind \<Rightarrow> bool" where
  "tagCoverFound lib file pCoverImage k =
     (case k of
        CommentBlockTag \<Rightarrow>
          (case xiphComment file of
             Some t \<Rightarrow> fst (callSink (xiph_importCoverImageFromTag lib) pCoverImage t)
           | None \<Rightarrow> False)
      | FrameTag \<Rightarrow>
          (case ID3v2Tag file of
             Some t \<Rightarrow> fst (callSink (id3v2_importCoverImageFromTag lib) pCoverImage t)
           | None \<Rightarrow> False)
      | _ \<Rightarrow> False)"

section \<open>A small library instance and filesystem for evaluating the model\<close>

text \<open>
  A tag is a title with, possibly, an embedded picture. The readers copy the title and
  report the picture when there is one; the writers store the title; a picture-list entry
  is usable unless it is empty.
\<close>

type_synonym DemoTag = "string \<times> string option"

definition demoCover :: "(DemoTag, string QImage) sinkFun" where
  "demoCover =
     \<lparr>onNull = (\<lambda>t. False),
      onSink = (\<lambda>t img. case snd t of None \<Rightarrow> (False, img) | Some c \<Rightarrow> (True, Some c))\<rparr>"

definition demoExport :: "(TrackMetadata, DemoTag) sinkFun" where
  "demoExport = \<lparr>onNull = (\<lambda>md. False), onSink = (\<lambda>md t. (True, (title md, snd t)))\<rparr>"

definition demoLib :: "(DemoTag, string, string) TagLibApi" where
  "demoLib =
     \<lparr>readAudioPropertiesFromFile = \<lparr>onNull = isOpen, onSink = (\<lambda>file md. (isOpen file, md))\<rparr>,
      importTrackMetadataFromTag = (\<lambda>t md. md\<lparr>title := fst t\<rparr>),
      id3v2_importTrackMetadataFromTag = (\<lambda>t reset md. md\<lparr>title := fst t\<rparr>),
      id3v2_importCoverImageFromTag = demoCover,
      ape_importTrackMetadataFromTag = (\<lambda>t reset md. md\<lparr>title := fst t\<rparr>),
      ape_importCoverImageFromTag = demoCover,
      mp4_importTrackMetadataFromTag = (\<lambda>t reset md. md\<lparr>title := fst t\<rparr>),
      mp4_importCoverImageFromTag = demoCover,
      xiph_importTrackMetadataFromTag = (\<lambda>t fileType reset md. md\<lparr>title := fst t\<rparr>),
      xiph_importCoverImageFromTag = demoCover,
      riff_importTrackMetadataFromTag = (\<lambda>t md. md\<lparr>title := fst t\<rparr>),
      loadImage = (\<lambda>pic. if pic = [] then None else Some pic),
      ape_exportTrackMetadataIntoTag = demoExport,
      id3v2_exportTrackMetadataIntoTag = demoExport,
      mp4_exportTrackMetadataIntoTag = demoExport,
      xiph_exportTrackMetadataIntoTag =
        \<lparr>onNull = (\<lambda>a. False), onSink = (\<lambda>a t. (True, (title (fst a), snd t)))\<rparr>,
      exportTrackMetadataIntoTag = (\<lambda>md t. (title md, snd t)),
      emptyTag = ([], None),
      taglib_1_11_1 = False,
      mpeg_save = (\<lambda>tags m_file onDisk. m_file)\<rparr>"

definition demoMetadata :: TrackMetadata where
  "demoMetadata = \<lparr>title = ''Old'', artist = ''X'', album = ''Y'', comment = ''Z''\<rparr>"

text \<open>An open file without any tag, and files made from it by adding tags.\<close>

definition bareFile :: "(DemoTag, string) TagLibFile" where
  "bareFile = closedFile\<lparr>isOpen := True\<rparr>"

text \<open>A filesystem holding one file, with no fault to come.\<close>

definition oneFile :: "string \<Rightarrow> (DemoTag, string) TagLibFile \<Rightarrow> bool \<Rightarrow> (DemoTag, string) World" where
  "oneFile name file w =
     \<lparr>files = [name \<mapsto> \<lparr>contents = file, fileSize = 1000, writable = w, lastModified = 7\<rparr>],
      calls = [], faults = []\<rparr>"

section \<open>Auxiliary facts\<close>

lemma callSink_null: "callSink f p a = (r, p') \<Longrightarrow> (p' = None) = (p = None)"
  by (auto simp add: callSink_def split: option.splits prod.splits)

lemma textChunksLoop_none:
  "\<forall>c \<in> set cs. \<not> (fst c = ''NAME'' \<or> fst c = ''AUTH'' \<or> fst c = ''ANNO'') \<Longrightarrow>
   textChunksLoop cs md b = (md, b)"
  by (induction cs arbitrary: md b) auto

lemma textChunks_absent:
  "\<not> hasTextChunks file \<Longrightarrow> fst (importTrackMetadataFromTextChunks file p) = False"
  by (cases p) (simp_all add: importTrackMetadataFromTextChunks_def hasTextChunks_def
      textChunksLoop_none)

lemma picture_list_first_usable:
  "importCoverImageFromPictureList load ps =
     (case List.find (\<lambda>p. load p \<noteq> None) ps of None \<Rightarrow> None | Some p \<Rightarrow> load p)"
  by (induction ps) (auto split: option.splits)

lemmas import_cases_defs =
  importMP3_def importMP4_def importFLAC_def importFLACTags_def importOgg_def importWV_def
  importWAV_def importAIFF_def

lemmas fs_defs =
  QFileInfo_isWritable_def QFile_exists_def QFile_size_def QFile_copy_def QFile_remove_def
  QFile_rename_def called_def nextFault_def

lemmas swf_defs =
  SafelyWritableFile_new_def SafelyWritableFile_fileName_def SafelyWritableFile_delete_def
  isReady_def isNull_def isEmpty_def nullNames_def cancel_def chars_def

lemmas demo_defs =
  demoLib_def demoCover_def demoExport_def demoMetadata_def bareFile_def closedFile_def
  oneFile_def TagLib_File_def

lemma temp_suffix_not_empty [simp]: "kSafelyWritableTempFileSuffix \<noteq> []"
  by (simp add: kSafelyWritableTempFileSuffix_def)


lemma ready_null [simp]: "\<not> isReady nullNames"
  by (simp add: isReady_def SafelyWritableFile_fileName_def isNull_def isEmpty_def
      nullNames_def)

lemma ready_temp [simp]:
  "isReady \<lparr>m_origFileName = Some name,
            m_tempFileName = Some (name @ kSafelyWritableTempFileSuffix)\<rparr>"
  by (simp add: isReady_def SafelyWritableFile_fileName_def isNull_def isEmpty_def
      kSafelyWritableTempFileSuffix_def)

lemma delete_null [simp]: "SafelyWritableFile_delete nullNames w = w"
  by (simp add: SafelyWritableFile_delete_def cancel_def nullNames_def)

text \<open>A successful \<open>commit\<close> leaves the name of the temporary file null.\<close>

lemma commitRemoveBackup_done:
  "commitRemoveBackup this oldFileName w = (True, this', w') \<Longrightarrow> m_tempFileName this' = None"
  by (auto simp add: commitRemoveBackup_def nullNames_def split: prod.splits if_splits)

lemma commitReplace_done:
  "commitReplace this tempFileName origFileName oldFileName w = (True, this', w') \<Longrightarrow>
   m_tempFileName this' = None"
  by (auto simp add: commitReplace_def split: prod.splits if_splits
      dest: commitRemoveBackup_done)

lemma commit_done:
  "commit this w = (True, this', w') \<Longrightarrow> m_tempFileName this' = None"
  by (auto simp add: commit_def Let_def split: option.splits prod.splits if_splits
      dest: commitReplace_done)

section \<open>Import: results\<close>

text \<open>
  Claim C7. For every supported format, importing a file that contains no tag container
  at all, and whose audio properties can be read, returns \<open>Unavailable\<close>, never \<open>Failed\<close>.
\<close>

theorem import_without_tag_containers:
  assumes supported: "m_fileType this \<noteq> Unknown"
    and none: "noTagContainers (TagLib_File (m_fileName this) w)"
    and preamble: "fst (callSink (readAudioPropertiesFromFile lib) pTrackMetadata
                     (TagLib_File (m_fileName this) w))"
  shows "fst (fst (importTrackMetadataAndCoverImage lib this w pTrackMetadata pCoverImage
                     resetMissingTagMetadata)) = ImportResult.Unavailable \<and>
         fst (fst (importTrackMetadataAndCoverImage lib this w pTrackMetadata pCoverImage
                     resetMissingTagMetadata)) \<noteq> ImportResult.Failed"
proof -
  let ?file = "TagLib_File (m_fileName this) w"
  from none have tags: "ID3v2Tag ?file = None" "APETag ?file = None" "ID3v1Tag ?file = None"
    "MP4Tag ?file = None" "xiphComment ?file = None" "InfoTag ?file = None"
    and chunks: "\<not> hasTextChunks ?file"
    by (simp_all add: noTagContainers_def)
  have aiff: "importTrackMetadataFromTextChunks ?file p \<noteq> (True, q)" for p q
    using textChunks_absent [OF chunks, of p] by auto
  show ?thesis
    using supported tags aiff
    by (cases "m_fileType this")
      (auto simp add: importTrackMetadataAndCoverImage_def afterImport_def Let_def
        import_cases_defs hasID3v1Tag_def split: prod.splits)
qed

text \<open>
  The theorem at a WAV file without tags, with both track metadata and cover image asked
  for.
\<close>

theorem import_without_tag_containers_witness:
  "m_fileType \<lparr>m_fileName = ''a.wav'', m_fileType = WAV\<rparr> \<noteq> Unknown \<and>
   noTagContainers (TagLib_File ''a.wav'' (oneFile ''a.wav'' bareFile True)) \<and>
   fst (callSink (readAudioPropertiesFromFile demoLib) (Some demoMetadata)
          (TagLib_File ''a.wav'' (oneFile ''a.wav'' bareFile True))) \<and>
   fst (fst (importTrackMetadataAndCoverImage demoLib
               \<lparr>m_fileName = ''a.wav'', m_fileType = WAV\<rparr> (oneFile ''a.wav'' bareFile True)
               (Some demoMetadata) (Some None) False)) = ImportResult.Unavailable"
proof -
  let ?src = "\<lparr>m_fileName = ''a.wav'', m_fileType = WAV\<rparr>"
  let ?w = "oneFile ''a.wav'' bareFile True"
  have h1: "m_fileType ?src \<noteq> Unknown" by simp
  have h2: "noTagContainers (TagLib_File (m_fileName ?src) ?w)"
    by (simp add: noTagContainers_def hasTextChunks_def demo_defs)
  have h3: "fst (callSink (readAudioPropertiesFromFile demoLib) (Some demoMetadata)
                   (TagLib_File (m_fileName ?src) ?w))"
    by (simp add: callSink_def demo_defs)
  from import_without_tag_containers [OF h1 h2 h3, of "Some None" False] h1 h2 h3
  show ?thesis by simp
qed

text \<open>
  Claim C1, as amended. For every file whose format is recognized, if the audio
  properties cannot be read, the import returns \<open>Unavailable\<close>: each \<open>case\<close> block leaves
  the \<open>switch\<close> by \<open>break\<close>.
\<close>

theorem import_preamble_unreadable:
  assumes supported: "m_fileType this \<noteq> Unknown"
    and preamble: "\<not> fst (callSink (readAudioPropertiesFromFile lib) pTrackMetadata
                       (TagLib_File (m_fileName this) w))"
  shows "fst (fst (importTrackMetadataAndCoverImage lib this w pTrackMetadata pCoverImage
                     resetMissingTagMetadata)) = ImportResult.Unavailable"
  using supported preamble
  by (cases "m_fileType this")
    (auto simp add: importTrackMetadataAndCoverImage_def afterImport_def Let_def
      import_cases_defs split: prod.splits)

text \<open>The theorem at an MP3 file that TagLib cannot open.\<close>

theorem import_preamble_unreadable_witness:
  "m_fileType \<lparr>m_fileName = ''a.mp3'', m_fileType = MP3\<rparr> \<noteq> Unknown \<and>
   \<not> fst (callSink (readAudioPropertiesFromFile demoLib) (Some demoMetadata)
            (TagLib_File ''a.mp3'' (oneFile ''a.mp3'' closedFile True))) \<and>
   fst (fst (importTrackMetadataAndCoverImage demoLib
               \<lparr>m_fileName = ''a.mp3'', m_fileType = MP3\<rparr> (oneFile ''a.mp3'' closedFile True)
               (Some demoMetadata) None False)) = ImportResult.Unavailable"
proof -
  let ?src = "\<lparr>m_fileName = ''a.mp3'', m_fileType = MP3\<rparr>"
  let ?w = "oneFile ''a.mp3'' closedFile True"
  have h1: "m_fileType ?src \<noteq> Unknown" by simp
  have h2: "\<not> fst (callSink (readAudioPropertiesFromFile demoLib) (Some demoMetadata)
                     (TagLib_File (m_fileName ?src) ?w))"
    by (simp add: callSink_def demo_defs)
  from import_preamble_unreadable [OF h1 h2, of None False] h1 h2
  show ?thesis by simp
qed

text \<open>
  Claim C1 as stated fails: the format of this file is recognized, its audio properties
  cannot be read, and the result is not \<open>Failed\<close>.
\<close>

theorem import_preamble_unreadable_not_failed:
  "m_fileType \<lparr>m_fileName = ''a.mp3'', m_fileType = MP3\<rparr> \<noteq> Unknown \<and>
   \<not> fst (callSink (readAudioPropertiesFromFile demoLib) (Some demoMetadata)
            (TagLib_File ''a.mp3'' (oneFile ''a.mp3'' closedFile True))) \<and>
   fst (fst (importTrackMetadataAndCoverImage demoLib
               \<lparr>m_fileName = ''a.mp3'', m_fileType = MP3\<rparr> (oneFile ''a.mp3'' closedFile True)
               (Some demoMetadata) None False)) \<noteq> ImportResult.Failed"
  by (simp add: importTrackMetadataAndCoverImage_def afterImport_def importMP3_def
      callSink_def demo_defs)

text \<open>
  Claim C3, as amended. For every import call that asks for track metadata or a cover
  image, on a file whose format is not recognized, the import returns \<open>Failed\<close>: the
  \<open>default\<close> label of the \<open>switch\<close>.
\<close>

theorem import_unknown_type:
  assumes unknown: "m_fileType this = Unknown"
    and sinks: "pTrackMetadata \<noteq> None \<or> pCoverImage \<noteq> None"
  shows "fst (fst (importTrackMetadataAndCoverImage lib this w pTrackMetadata pCoverImage
                     resetMissingTagMetadata)) = ImportResult.Failed"
  using unknown sinks
  by (auto simp add: importTrackMetadataAndCoverImage_def afterImport_def)

text \<open>The theorem at a file of unknown type, with track metadata asked for.\<close>

theorem import_unknown_type_witness:
  "m_fileType \<lparr>m_fileName = ''a.xyz'', m_fileType = Unknown\<rparr> = Unknown \<and>
   Some demoMetadata \<noteq> None \<and>
   fst (fst (importTrackMetadataAndCoverImage demoLib
               \<lparr>m_fileName = ''a.xyz'', m_fileType = Unknown\<rparr> (oneFile ''a.xyz'' bareFile True)
               (Some demoMetadata) None False)) = ImportResult.Failed"
proof -
  let ?src = "\<lparr>m_fileName = ''a.xyz'', m_fileType = Unknown\<rparr>"
  have h1: "m_fileType ?src = Unknown" by simp
  have h2: "Some demoMetadata \<noteq> None \<or> (None :: string QImage option) \<noteq> None" by simp
  from import_unknown_type [OF h1 h2, of demoLib "oneFile ''a.xyz'' bareFile True" False] h1
  show ?thesis by simp
qed

text \<open>Claim C3 as stated fails: for this file the result is not \<open>UnsupportedFormat\<close>.\<close>

theorem import_unknown_type_not_unsupported:
  "m_fileType \<lparr>m_fileName = ''a.xyz'', m_fileType = Unknown\<rparr> = Unknown \<and>
   fst (fst (importTrackMetadataAndCoverImage demoLib
               \<lparr>m_fileName = ''a.xyz'', m_fileType = Unknown\<rparr> (oneFile ''a.xyz'' bareFile True)
               (Some demoMetadata) None False)) \<noteq> ImportResult.UnsupportedFormat"
  by (simp add: importTrackMetadataAndCoverImage_def afterImport_def)

section \<open>Import: precedence of the tag containers\<close>

text \<open>
  Claim C5, as amended. An MP3 import that asks for track metadata or a cover image, and
  for which the audio properties can be read, tests for the containers in the order
  FrameTag, KeyValueTag, LegacyFrameTag, stops at the first one present and reads that one
  only (the LegacyFrameTag through the tag that \<open>file.tag()\<close> returns; when none of the
  three can be read, nothing is read and the result is \<open>Unavailable\<close>). With a FrameTag
  present, the metadata and the cover image are what the ID3v2 readers give for that tag,
  whatever else the file holds; so when track metadata is asked for and the ID3v2 reader
  yields the title \<open>x\<close> for the tag, the imported title is \<open>x\<close>.
\<close>

theorem import_mp3_precedence:
  assumes mp3: "m_fileType this = MP3"
    and sinks: "pTrackMetadata \<noteq> None \<or> pCoverImage \<noteq> None"
    and preamble: "callSink (readAudioPropertiesFromFile lib) pTrackMetadata
                     (TagLib_File (m_fileName this) w) = (True, md)"
  shows "(let file = TagLib_File (m_fileName this) w;
              r = importTrackMetadataAndCoverImage lib this w pTrackMetadata pCoverImage
                    resetMissingTagMetadata;
              cs = libCalls (snd r)
          in (\<forall>t. ID3v2Tag file = Some t \<longrightarrow>
                fst (fst r) = ImportResult.Succeeded \<and>
                probedKinds cs = [FrameTag] \<and> set (readKinds cs) = {FrameTag} \<and>
                metadataSink (snd r) =
                  map_option (id3v2_importTrackMetadataFromTag lib t resetMissingTagMetadata) md \<and>
                coverSink (snd r) =
                  snd (callSink (id3v2_importCoverImageFromTag lib) pCoverImage t) \<and>
                (\<forall>x. pTrackMetadata \<noteq> None \<and>
                     (\<forall>m. title (id3v2_importTrackMetadataFromTag lib t
                                   resetMissingTagMetadata m) = x) \<longrightarrow>
                     map_option title (metadataSink (snd r)) = Some x)) \<and>
             (\<forall>t. ID3v2Tag file = None \<and> APETag file = Some t \<longrightarrow>
                fst (fst r) = ImportResult.Succeeded \<and>
                probedKinds cs = [FrameTag, KeyValueTag] \<and> set (readKinds cs) = {KeyValueTag} \<and>
                metadataSink (snd r) =
                  map_option (ape_importTrackMetadataFromTag lib t resetMissingTagMetadata) md \<and>
                coverSink (snd r) =
                  snd (callSink (ape_importCoverImageFromTag lib) pCoverImage t)) \<and>
             (\<forall>t. ID3v2Tag file = None \<and> APETag file = None \<and> hasID3v1Tag file \<and>
                  tag file = Some t \<longrightarrow>
                fst (fst r) = ImportResult.Succeeded \<and>
                probedKinds cs = [FrameTag, KeyValueTag, LegacyFrameTag] \<and>
                set (readKinds cs) = {LegacyFrameTag} \<and>
                metadataSink (snd r) = map_option (importTrackMetadataFromTag lib t) md) \<and>
             (ID3v2Tag file = None \<and> APETag file = None \<and>
              \<not> (hasID3v1Tag file \<and> tag file \<noteq> None) \<longrightarrow>
                fst (fst r) = ImportResult.Unavailable \<and>
                probedKinds cs = [FrameTag, KeyValueTag, LegacyFrameTag] \<and>
                readKinds cs = [] \<and>
                metadataSink (snd r) = md \<and> coverSink (snd r) = pCoverImage))"
proof -
  from preamble have "(md = None) = (pTrackMetadata = None)"
    by (rule callSink_null)
  then have some: "pTrackMetadata \<noteq> None \<Longrightarrow> \<exists>m. md = Some m"
    by auto
  show ?thesis
    using mp3 sinks preamble some
    by (auto simp add: importTrackMetadataAndCoverImage_def afterImport_def Let_def
        importMP3_def probedKinds_def readKinds_def map_filter_simps
        split: prod.splits option.splits)
qed

text \<open>
  The theorem at an MP3 file that holds a FrameTag and a KeyValueTag with different
  titles: the imported title is the one of the FrameTag, and the KeyValueTag is not even
  tested for.
\<close>

theorem import_mp3_precedence_witness:
  "m_fileType \<lparr>m_fileName = ''a.mp3'', m_fileType = MP3\<rparr> = MP3 \<and>
   callSink (readAudioPropertiesFromFile demoLib) (Some demoMetadata)
     (TagLib_File ''a.mp3''
        (oneFile ''a.mp3''
           (bareFile\<lparr>ID3v2Tag := Some (''Frame title'', None),
                     APETag := Some (''Key-value title'', None)\<rparr>) True)) =
     (True, Some demoMetadata) \<and>
   ID3v2Tag
     (TagLib_File ''a.mp3''
        (oneFile ''a.mp3''
           (bareFile\<lparr>ID3v2Tag := Some (''Frame title'', None),
                     APETag := Some (''Key-value title'', None)\<rparr>) True)) =
     Some (''Frame title'', None) \<and>
   APETag
     (TagLib_File ''a.mp3''
        (oneFile ''a.mp3''
           (bareFile\<lparr>ID3v2Tag := Some (''Frame title'', None),
                     APETag := Some (''Key-value title'', None)\<rparr>) True)) =
     Some (''Key-value title'', None) \<and>
   fst (fst (importTrackMetadataAndCoverImage demoLib
               \<lparr>m_fileName = ''a.mp3'', m_fileType = MP3\<rparr>
               (oneFile ''a.mp3''
                  (bareFile\<lparr>ID3v2Tag := Some (''Frame title'', None),
                            APETag := Some (''Key-value title'', None)\<rparr>) True)
               (Some demoMetadata) None False)) = ImportResult.Succeeded \<and>
   probedKinds (libCalls (snd (importTrackMetadataAndCoverImage demoLib
               \<lparr>m_fileName = ''a.mp3'', m_fileType = MP3\<rparr>
               (oneFile ''a.mp3''
                  (bareFile\<lparr>ID3v2Tag := Some (''Frame title'', None),
                            APETag := Some (''Key-value title'', None)\<rparr>) True)
               (Some demoMetadata) None False))) = [FrameTag] \<and>
   map_option title (metadataSink (snd (importTrackMetadataAndCoverImage demoLib
               \<lparr>m_fileName = ''a.mp3'', m_fileType = MP3\<rparr>
               (oneFile ''a.mp3''
                  (bareFile\<lparr>ID3v2Tag := Some (''Frame title'', None),
                            APETag := Some (''Key-value title'', None)\<rparr>) True)
               (Some demoMetadata) None False))) = Some ''Frame title''"
proof -
  let ?file = "bareFile\<lparr>ID3v2Tag := Some (''Frame title'', None),
                         APETag := Some (''Key-value title'', None)\<rparr>"
  let ?src = "\<lparr>m_fileName = ''a.mp3'', m_fileType = MP3\<rparr>"
  let ?w = "oneFile ''a.mp3'' ?file True"
  have h1: "m_fileType ?src = MP3" by simp
  have h2: "Some demoMetadata \<noteq> None \<or> (None :: string QImage option) \<noteq> None" by simp
  have h3: "callSink (readAudioPropertiesFromFile demoLib) (Some demoMetadata)
              (TagLib_File (m_fileName ?src) ?w) = (True, Some demoMetadata)"
    by (simp add: callSink_def demo_defs)
  have h4: "ID3v2Tag (TagLib_File (m_fileName ?src) ?w) = Some (''Frame title'', None)"
    by (simp add: TagLib_File_def oneFile_def)
  have h5: "APETag (TagLib_File (m_fileName ?src) ?w) = Some (''Key-value title'', None)"
    by (simp add: TagLib_File_def oneFile_def)
  have h6: "\<forall>m. title (id3v2_importTrackMetadataFromTag demoLib (''Frame title'', None) False m)
              = ''Frame title''"
    by (simp add: demoLib_def)
  from import_mp3_precedence [OF h1 h2 h3, of False] h4 h6
  have "fst (fst (importTrackMetadataAndCoverImage demoLib ?src ?w (Some demoMetadata) None
                    False)) = ImportResult.Succeeded \<and>
        probedKinds (libCalls (snd (importTrackMetadataAndCoverImage demoLib ?src ?w
                    (Some demoMetadata) None False))) = [FrameTag] \<and>
        map_option title (metadataSink (snd (importTrackMetadataAndCoverImage demoLib ?src ?w
                    (Some demoMetadata) None False))) = Some ''Frame title''"
    unfolding Let_def by blast
  with h1 h3 h4 h5 show ?thesis
    by simp
qed

text \<open>
  Claim C5 as stated fails. This MP3 file holds a FrameTag and a KeyValueTag with
  different titles, but its audio properties cannot be read: the import leaves the
  \<open>switch\<close> before it tests for any container, the result is \<open>Unavailable\<close>, and the
  title is the one handed in, not the one of the FrameTag.
\<close>

theorem import_mp3_unreadable_ignores_frame_tag:
  "m_fileType \<lparr>m_fileName = ''a.mp3'', m_fileType = MP3\<rparr> = MP3 \<and>
   ID3v2Tag
     (TagLib_File ''a.mp3''
        (oneFile ''a.mp3''
           (closedFile\<lparr>ID3v2Tag := Some (''Frame title'', None),
                       APETag := Some (''Key-value title'', None)\<rparr>) True)) =
     Some (''Frame title'', None) \<and>
   APETag
     (TagLib_File ''a.mp3''
        (oneFile ''a.mp3''
           (closedFile\<lparr>ID3v2Tag := Some (''Frame title'', None),
                       APETag := Some (''Key-value title'', None)\<rparr>) True)) =
     Some (''Key-value title'', None) \<and>
   fst (fst (importTrackMetadataAndCoverImage demoLib
               \<lparr>m_fileName = ''a.mp3'', m_fileType = MP3\<rparr>
               (oneFile ''a.mp3''
                  (closedFile\<lparr>ID3v2Tag := Some (''Frame title'', None),
                              APETag := Some (''Key-value title'', None)\<rparr>) True)
               (Some demoMetadata) None False)) = ImportResult.Unavailable \<and>
   probedKinds (libCalls (snd (importTrackMetadataAndCoverImage demoLib
               \<lparr>m_fileName = ''a.mp3'', m_fileType = MP3\<rparr>
               (oneFile ''a.mp3''
                  (closedFile\<lparr>ID3v2Tag := Some (''Frame title'', None),
                              APETag := Some (''Key-value title'', None)\<rparr>) True)
               (Some demoMetadata) None False))) = [] \<and>
   readKinds (libCalls (snd (importTrackMetadataAndCoverImage demoLib
               \<lparr>m_fileName = ''a.mp3'', m_fileType = MP3\<rparr>
               (oneFile ''a.mp3''
                  (closedFile\<lparr>ID3v2Tag := Some (''Frame title'', None),
                              APETag := Some (''Key-value title'', None)\<rparr>) True)
               (Some demoMetadata) None False))) = [] \<and>
   map_option title (metadataSink (snd (importTrackMetadataAndCoverImage demoLib
               \<lparr>m_fileName = ''a.mp3'', m_fileType = MP3\<rparr>
               (oneFile ''a.mp3''
                  (closedFile\<lparr>ID3v2Tag := Some (''Frame title'', None),
                              APETag := Some (''Key-value title'', None)\<rparr>) True)
               (Some demoMetadata) None False))) = Some ''Old'' \<and>
   ''Old'' \<noteq> ''Frame title''"
  by (simp add: importTrackMetadataAndCoverImage_def afterImport_def importMP3_def
      callSink_def probedKinds_def readKinds_def map_filter_simps demo_defs)

text \<open>
  Claim C6. In a FLAC import, the picture list is read if and only if a cover image is
  asked for, a tag container was read, and the reader of cover images reported none for
  that container. When the picture list is read, the cover image returned is its first
  usable entry (the null image when no entry is usable). When no tag container was read,
  the picture list is not read, the cover image is left as it was and the result is
  \<open>Unavailable\<close>. A container is read exactly when track metadata or a cover image is
  asked for, the audio properties can be read and the file has a CommentBlockTag or a
  FrameTag; the first of the two is then read by its own readers, which give the track
  metadata and, when they report a cover image, the cover image.
\<close>

theorem import_flac_picture_list:
  assumes flac: "m_fileType this = FLAC"
  shows "(let file = TagLib_File (m_fileName this) w;
              r = importTrackMetadataAndCoverImage lib this w pTrackMetadata pCoverImage
                    resetMissingTagMetadata;
              cs = libCalls (snd r);
              asked = (pTrackMetadata \<noteq> None \<or> pCoverImage \<noteq> None);
              ok = fst (callSink (readAudioPropertiesFromFile lib) pTrackMetadata file);
              md = snd (callSink (readAudioPropertiesFromFile lib) pTrackMetadata file);
              firstUsable =
                (case List.find (\<lambda>p. loadImage lib p \<noteq> None) (pictureList file) of
                   None \<Rightarrow> None
                 | Some p \<Rightarrow> loadImage lib p)
          in (ImportPictureList \<in> set cs \<longleftrightarrow>
                pCoverImage \<noteq> None \<and>
                (\<exists>k \<in> set (readKinds cs). \<not> tagCoverFound lib file pCoverImage k)) \<and>
             (ImportPictureList \<in> set cs \<longrightarrow>
                fst (fst r) = ImportResult.Succeeded \<and> coverSink (snd r) = Some firstUsable) \<and>
             (readKinds cs = [] \<longrightarrow>
                ImportPictureList \<notin> set cs \<and> fst (fst r) = ImportResult.Unavailable \<and>
                coverSink (snd r) = pCoverImage) \<and>
             (readKinds cs \<noteq> [] \<longleftrightarrow>
                asked \<and> ok \<and> (xiphComment file \<noteq> None \<or> ID3v2Tag file \<noteq> None)) \<and>
             (\<forall>t. asked \<and> ok \<and> xiphComment file = Some t \<longrightarrow>
                fst (fst r) = ImportResult.Succeeded \<and>
                readKinds cs = [CommentBlockTag, CommentBlockTag] \<and>
                metadataSink (snd r) =
                  map_option
                    (xiph_importTrackMetadataFromTag lib t FLAC resetMissingTagMetadata) md \<and>
                coverSink (snd r) =
                  (if pCoverImage \<noteq> None \<and> \<not> tagCoverFound lib file pCoverImage CommentBlockTag
                   then Some firstUsable
                   else snd (callSink (xiph_importCoverImageFromTag lib) pCoverImage t))) \<and>
             (\<forall>t. asked \<and> ok \<and> xiphComment file = None \<and> ID3v2Tag file = Some t \<longrightarrow>
                fst (fst r) = ImportResult.Succeeded \<and>
                readKinds cs = [FrameTag, FrameTag] \<and>
                metadataSink (snd r) =
                  map_option
                    (id3v2_importTrackMetadataFromTag lib t resetMissingTagMetadata) md \<and>
                coverSink (snd r) =
                  (if pCoverImage \<noteq> None \<and> \<not> tagCoverFound lib file pCoverImage FrameTag
                   then Some firstUsable
                   else snd (callSink (id3v2_importCoverImageFromTag lib) pCoverImage t))))"
  using flac
  by (auto simp add: importTrackMetadataAndCoverImage_def afterImport_def Let_def
      importFLAC_def importFLACTags_def tagCoverFound_def readKinds_def map_filter_simps
      picture_list_first_usable
      split: prod.splits option.splits)

text \<open>
  The theorem at a FLAC file whose CommentBlockTag embeds no picture and whose picture
  list starts with an unusable entry: the CommentBlockTag is read and gives the title,
  and the cover image is the second entry of the picture list.
\<close>

theorem import_flac_picture_list_witness:
  "m_fileType \<lparr>m_fileName = ''a.flac'', m_fileType = FLAC\<rparr> = FLAC \<and>
   fst (callSink (readAudioPropertiesFromFile demoLib) (Some demoMetadata)
          (TagLib_File ''a.flac''
             (oneFile ''a.flac''
                (bareFile\<lparr>xiphComment := Some (''T'', None),
                          pictureList := [[], ''front'', ''back'']\<rparr>) True))) \<and>
   \<not> tagCoverFound demoLib
     (TagLib_File ''a.flac''
        (oneFile ''a.flac''
           (bareFile\<lparr>xiphComment := Some (''T'', None),
                     pictureList := [[], ''front'', ''back'']\<rparr>) True))
     (Some None) CommentBlockTag \<and>
   readKinds (libCalls (snd (importTrackMetadataAndCoverImage demoLib
               \<lparr>m_fileName = ''a.flac'', m_fileType = FLAC\<rparr>
               (oneFile ''a.flac''
                  (bareFile\<lparr>xiphComment := Some (''T'', None),
                            pictureList := [[], ''front'', ''back'']\<rparr>) True)
               (Some demoMetadata) (Some None) False))) =
     [CommentBlockTag, CommentBlockTag] \<and>
   map_option title (metadataSink (snd (importTrackMetadataAndCoverImage demoLib
               \<lparr>m_fileName = ''a.flac'', m_fileType = FLAC\<rparr>
               (oneFile ''a.flac''
                  (bareFile\<lparr>xiphComment := Some (''T'', None),
                            pictureList := [[], ''front'', ''back'']\<rparr>) True)
               (Some demoMetadata) (Some None) False))) = Some ''T'' \<and>
   ImportPictureList \<in> set (libCalls (snd (importTrackMetadataAndCoverImage demoLib
               \<lparr>m_fileName = ''a.flac'', m_fileType = FLAC\<rparr>
               (oneFile ''a.flac''
                  (bareFile\<lparr>xiphComment := Some (''T'', None),
                            pictureList := [[], ''front'', ''back'']\<rparr>) True)
               (Some demoMetadata) (Some None) False))) \<and>
   coverSink (snd (importTrackMetadataAndCoverImage demoLib
               \<lparr>m_fileName = ''a.flac'', m_fileType = FLAC\<rparr>
               (oneFile ''a.flac''
                  (bareFile\<lparr>xiphComment := Some (''T'', None),
                            pictureList := [[], ''front'', ''back'']\<rparr>) True)
               (Some demoMetadata) (Some None) False)) = Some (Some ''front'')"
proof -
  let ?file = "bareFile\<lparr>xiphComment := Some (''T'', None),
                         pictureList := [[], ''front'', ''back'']\<rparr>"
  let ?src = "\<lparr>m_fileName = ''a.flac'', m_fileType = FLAC\<rparr>"
  let ?w = "oneFile ''a.flac'' ?file True"
  let ?r = "importTrackMetadataAndCoverImage demoLib ?src ?w (Some demoMetadata) (Some None)
              False"
  have h1: "m_fileType ?src = FLAC" by simp
  have h3: "callSink (readAudioPropertiesFromFile demoLib) (Some demoMetadata)
              (TagLib_File (m_fileName ?src) ?w) = (True, Some demoMetadata)"
    by (simp add: callSink_def demo_defs)
  have h4: "\<not> tagCoverFound demoLib (TagLib_File (m_fileName ?src) ?w) (Some None)
                CommentBlockTag"
    by (simp add: tagCoverFound_def callSink_def demo_defs)
  have h5: "(case List.find (\<lambda>p. loadImage demoLib p \<noteq> None)
                    (pictureList (TagLib_File (m_fileName ?src) ?w)) of
               None \<Rightarrow> None
             | Some p \<Rightarrow> loadImage demoLib p) = Some ''front''"
    by (simp add: demo_defs)
  have h6: "xiphComment (TagLib_File (m_fileName ?src) ?w) = Some (''T'', None)"
    by (simp add: demo_defs)
  have h7: "title (xiph_importTrackMetadataFromTag demoLib (''T'', None) FLAC False
              demoMetadata) = ''T''"
    by (simp add: demoLib_def)
  note inst = import_flac_picture_list [OF h1, where lib = demoLib and w = "?w"
      and pTrackMetadata = "Some demoMetadata" and pCoverImage = "Some None"
      and resetMissingTagMetadata = False, unfolded Let_def]
  from inst h3 h6 have reads: "readKinds (libCalls (snd ?r)) = [CommentBlockTag, CommentBlockTag]"
    and meta: "metadataSink (snd ?r) =
      map_option (xiph_importTrackMetadataFromTag demoLib (''T'', None) FLAC False)
        (Some demoMetadata)"
    by simp_all
  from inst reads h4 have fires: "ImportPictureList \<in> set (libCalls (snd ?r))"
    by simp
  with inst h5 have cover: "coverSink (snd ?r) = Some (Some ''front'')"
    by simp
  from meta h7 have "map_option title (metadataSink (snd ?r)) = Some ''T''"
    by simp
  with h1 h3 h4 reads fires cover show ?thesis
    by simp
qed

text \<open>
  Claim C10. In an MP3 import with neither a FrameTag nor a KeyValueTag, where the
  metadata comes from the LegacyFrameTag, the cover image is left as it was, also when a
  cover image was asked for: no reader of cover images runs, the picture list is not read,
  and the result is \<open>Succeeded\<close>.
\<close>

theorem import_mp3_legacy_fallback:
  assumes mp3: "m_fileType this = MP3"
    and sinks: "pTrackMetadata \<noteq> None \<or> pCoverImage \<noteq> None"
    and preamble: "callSink (readAudioPropertiesFromFile lib) pTrackMetadata
                     (TagLib_File (m_fileName this) w) = (True, md)"
    and absent: "ID3v2Tag (TagLib_File (m_fileName this) w) = None"
                "APETag (TagLib_File (m_fileName this) w) = None"
    and legacy: "hasID3v1Tag (TagLib_File (m_fileName this) w)"
                "tag (TagLib_File (m_fileName this) w) = Some t"
  shows "(let r = importTrackMetadataAndCoverImage lib this w pTrackMetadata pCoverImage
                    resetMissingTagMetadata
          in fst (fst r) = ImportResult.Succeeded \<and>
             coverSink (snd r) = pCoverImage \<and>
             metadataSink (snd r) = map_option (importTrackMetadataFromTag lib t) md \<and>
             libCalls (snd r) =
               [ReadAudioProperties, HasTag FrameTag, HasTag KeyValueTag, HasTag LegacyFrameTag,
                ImportTrackMetadata LegacyFrameTag])"
  using mp3 sinks preamble absent legacy
  by (auto simp add: importTrackMetadataAndCoverImage_def afterImport_def Let_def
      importMP3_def)

text \<open>
  The theorem at an MP3 file with an ID3v1 tag only, with a cover image asked for: the
  null image handed in is still there afterwards.
\<close>

theorem import_mp3_legacy_fallback_witness:
  "m_fileType \<lparr>m_fileName = ''a.mp3'', m_fileType = MP3\<rparr> = MP3 \<and>
   hasID3v1Tag
     (TagLib_File ''a.mp3''
        (oneFile ''a.mp3''
           (bareFile\<lparr>ID3v1Tag := Some (''Legacy'', None),
                     tag := Some (''Legacy'', None)\<rparr>) True)) \<and>
   fst (fst (importTrackMetadataAndCoverImage demoLib
               \<lparr>m_fileName = ''a.mp3'', m_fileType = MP3\<rparr>
               (oneFile ''a.mp3''
                  (bareFile\<lparr>ID3v1Tag := Some (''Legacy'', None),
                            tag := Some (''Legacy'', None)\<rparr>) True)
               (Some demoMetadata) (Some None) False)) = ImportResult.Succeeded \<and>
   coverSink (snd (importTrackMetadataAndCoverImage demoLib
               \<lparr>m_fileName = ''a.mp3'', m_fileType = MP3\<rparr>
               (oneFile ''a.mp3''
                  (bareFile\<lparr>ID3v1Tag := Some (''Legacy'', None),
                            tag := Some (''Legacy'', None)\<rparr>) True)
               (Some demoMetadata) (Some None) False)) = Some None \<and>
   map_option title (metadataSink (snd (importTrackMetadataAndCoverImage demoLib
               \<lparr>m_fileName = ''a.mp3'', m_fileType = MP3\<rparr>
               (oneFile ''a.mp3''
                  (bareFile\<lparr>ID3v1Tag := Some (''Legacy'', None),
                            tag := Some (''Legacy'', None)\<rparr>) True)
               (Some demoMetadata) (Some None) False))) = Some ''Legacy''"
proof -
  let ?file = "bareFile\<lparr>ID3v1Tag := Some (''Legacy'', None), tag := Some (''Legacy'', None)\<rparr>"
  let ?src = "\<lparr>m_fileName = ''a.mp3'', m_fileType = MP3\<rparr>"
  let ?w = "oneFile ''a.mp3'' ?file True"
  have h1: "m_fileType ?src = MP3" by simp
  have h2: "Some demoMetadata \<noteq> None \<or> Some (None :: string QImage) \<noteq> None" by simp
  have h3: "callSink (readAudioPropertiesFromFile demoLib) (Some demoMetadata)
              (TagLib_File (m_fileName ?src) ?w) = (True, Some demoMetadata)"
    by (simp add: callSink_def demo_defs)
  have h4: "ID3v2Tag (TagLib_File (m_fileName ?src) ?w) = None"
    by (simp add: demo_defs)
  have h5: "APETag (TagLib_File (m_fileName ?src) ?w) = None"
    by (simp add: demo_defs)
  have h6: "hasID3v1Tag (TagLib_File (m_fileName ?src) ?w)"
    by (simp add: hasID3v1Tag_def demo_defs)
  have h7: "tag (TagLib_File (m_fileName ?src) ?w) = Some (''Legacy'', None)"
    by (simp add: demo_defs)
  from import_mp3_legacy_fallback [OF h1 h2 h3 h4 h5 h6 h7, of False] h1 h6
  show ?thesis
    by (simp add: Let_def demoLib_def)
qed

section \<open>Export: the write transaction\<close>

text \<open>
  Claim C8. An export to a file that is not writable returns \<open>Failed\<close>. The test for
  writability is the only call made on the filesystem: no copy is made, so no file is
  created, removed or changed, and no temporary file is left behind. This holds for every
  file type.
\<close>

theorem export_not_writable:
  assumes readonly: "\<not> fst (QFileInfo_isWritable (m_fileName this) w)"
  shows "(let r = exportTrackMetadata lib this trackMetadata w
          in fst (fst r) = ExportResult.Failed \<and>
             files (snd r) = files w \<and>
             calls (snd r) = calls w @ [IsWritable (m_fileName this)] \<and>
             faults (snd r) = faults w)"
  using readonly
  by (simp add: exportTrackMetadata_def afterExport_def Let_def swf_defs fs_defs
      split: option.splits)

text \<open>The theorem at a read-only MP3 file.\<close>

theorem export_not_writable_witness:
  "\<not> fst (QFileInfo_isWritable ''a.mp3'' (oneFile ''a.mp3'' bareFile False)) \<and>
   fst (fst (exportTrackMetadata demoLib \<lparr>m_fileName = ''a.mp3'', m_fileType = MP3\<rparr>
               demoMetadata (oneFile ''a.mp3'' bareFile False))) = ExportResult.Failed \<and>
   files (snd (exportTrackMetadata demoLib \<lparr>m_fileName = ''a.mp3'', m_fileType = MP3\<rparr>
               demoMetadata (oneFile ''a.mp3'' bareFile False))) =
     files (oneFile ''a.mp3'' bareFile False) \<and>
   calls (snd (exportTrackMetadata demoLib \<lparr>m_fileName = ''a.mp3'', m_fileType = MP3\<rparr>
               demoMetadata (oneFile ''a.mp3'' bareFile False))) = [IsWritable ''a.mp3'']"
proof -
  let ?src = "\<lparr>m_fileName = ''a.mp3'', m_fileType = MP3\<rparr>"
  let ?w = "oneFile ''a.mp3'' bareFile False"
  have h1: "\<not> fst (QFileInfo_isWritable (m_fileName ?src) ?w)"
    by (simp add: QFileInfo_isWritable_def oneFile_def)
  have h2: "calls ?w = []"
    by (simp add: oneFile_def)
  from export_not_writable [OF h1, of demoLib demoMetadata] h1 h2
  show ?thesis
    by (simp add: Let_def)
qed

text \<open>
  Claim C9. A second \<open>cancel\<close> changes nothing: neither the object nor the filesystem,
  on which it makes no call. After a \<open>commit\<close> that returned \<open>true\<close>, \<open>cancel\<close> and
  with it the destructor change nothing either.
\<close>

theorem cancel_idempotent:
  "cancel (fst (cancel this w)) (snd (cancel this w)) = cancel this w \<and>
   (\<forall>this' w'. commit this w = (True, this', w') \<longrightarrow>
      cancel this' w' = (this', w') \<and> SafelyWritableFile_delete this' w' = w')"
proof -
  have twice: "cancel (fst (cancel this w)) (snd (cancel this w)) = cancel this w"
    by (simp add: cancel_def nullNames_def split: option.splits prod.splits)
  have "commit this w = (True, this', w') \<Longrightarrow>
      cancel this' w' = (this', w') \<and> SafelyWritableFile_delete this' w' = w'" for this' w'
    using commit_done [of this w this' w']
    by (simp add: cancel_def SafelyWritableFile_delete_def)
  with twice show ?thesis by blast
qed

text \<open>
  The theorem at a transaction prepared for a writable file: the commit succeeds and
  replaces the file, and the \<open>cancel\<close> that follows leaves the filesystem, with its list
  of calls, as the commit left it.
\<close>

theorem cancel_idempotent_witness:
  "fst (commit \<lparr>m_origFileName = Some ''a.mp3'', m_tempFileName = Some ''a.mp3_temp''\<rparr>
         (snd (SafelyWritableFile_new ''a.mp3'' True (oneFile ''a.mp3'' bareFile True)))) \<and>
   snd (cancel
          (fst (snd (commit
             \<lparr>m_origFileName = Some ''a.mp3'', m_tempFileName = Some ''a.mp3_temp''\<rparr>
             (snd (SafelyWritableFile_new ''a.mp3'' True (oneFile ''a.mp3'' bareFile True))))))
          (snd (snd (commit
             \<lparr>m_origFileName = Some ''a.mp3'', m_tempFileName = Some ''a.mp3_temp''\<rparr>
             (snd (SafelyWritableFile_new ''a.mp3'' True (oneFile ''a.mp3'' bareFile True))))))) =
     snd (snd (commit
             \<lparr>m_origFileName = Some ''a.mp3'', m_tempFileName = Some ''a.mp3_temp''\<rparr>
             (snd (SafelyWritableFile_new ''a.mp3'' True (oneFile ''a.mp3'' bareFile True)))))"
proof -
  let ?swf = "\<lparr>m_origFileName = Some ''a.mp3'', m_tempFileName = Some ''a.mp3_temp''\<rparr>"
  let ?w = "snd (SafelyWritableFile_new ''a.mp3'' True (oneFile ''a.mp3'' bareFile True))"
  have h1: "fst (commit ?swf ?w)"
    by (simp add: commit_def commitReplace_def commitRemoveBackup_def Let_def swf_defs
        fs_defs kSafelyWritableTempFileSuffix_def kSafelyWritableOrigFileSuffix_def oneFile_def)
  then have "commit ?swf ?w = (True, fst (snd (commit ?swf ?w)), snd (snd (commit ?swf ?w)))"
    by (cases "commit ?swf ?w") simp
  with cancel_idempotent [of ?swf ?w]
  have "cancel (fst (snd (commit ?swf ?w))) (snd (snd (commit ?swf ?w))) =
          (fst (snd (commit ?swf ?w)), snd (snd (commit ?swf ?w)))"
    by blast
  with h1 show ?thesis
    by simp
qed




section \<open>Export: which tags an MP3 file gets\<close>

text \<open>
  Claim C4, as amended. In an MP3 export into an open file: a FrameTag that exists is
  updated; a KeyValueTag is updated when it exists and never created; a FrameTag is
  created, and then updated, only in a file without a KeyValueTag, so that a file with a
  KeyValueTag and no FrameTag gets none; the LegacyFrameTag is not updated, also when it
  exists, and nothing else of the file object changes. The mask of modified tags names
  the KeyValueTag exactly when the file has one and its writer reports a modification,
  the FrameTag exactly when the writer called for the FrameTag reports a modification, and
  nothing else, so never the LegacyFrameTag; this mask is what \<open>saveModifiedTags\<close> hands
  to \<open>save\<close>, and tags count as modified exactly when the mask names one.
\<close>

theorem mpeg_export_policy:
  assumes "isOpen pFile"
  shows "(let r = MpegTagSaver_exportTrackMetadata lib pFile trackMetadata;
              tags = fst r; file' = snd r;
              ape = callSink (ape_exportTrackMetadataIntoTag lib) (APETag pFile) trackMetadata;
              pID3v2Tag =
                (if APETag pFile \<noteq> None then ID3v2Tag pFile
                 else getOrCreate lib (ID3v2Tag pFile));
              id3v2 = callSink (id3v2_exportTrackMetadataIntoTag lib) pID3v2Tag trackMetadata
          in (ID3v2Tag pFile \<noteq> None \<longrightarrow>
                ID3v2Tag file' =
                  snd (callSink (id3v2_exportTrackMetadataIntoTag lib) (ID3v2Tag pFile)
                         trackMetadata) \<and>
                ID3v2Tag file' \<noteq> None) \<and>
             (ID3v2Tag pFile = None \<and> APETag pFile = None \<longrightarrow>
                ID3v2Tag file' =
                  snd (callSink (id3v2_exportTrackMetadataIntoTag lib) (Some (emptyTag lib))
                         trackMetadata) \<and>
                ID3v2Tag file' \<noteq> None) \<and>
             (ID3v2Tag pFile = None \<and> APETag pFile \<noteq> None \<longrightarrow> ID3v2Tag file' = None) \<and>
             APETag file' = snd ape \<and>
             (APETag file' = None \<longleftrightarrow> APETag pFile = None) \<and>
             ID3v1Tag file' = ID3v1Tag pFile \<and>
             file' = pFile\<lparr>ID3v2Tag := ID3v2Tag file', APETag := APETag file'\<rparr> \<and>
             tags =
               (if APETag pFile \<noteq> None \<and> fst ape then APE else NoTags) OR
               (if fst id3v2 then ID3v2 else NoTags) \<and>
             tags AND ID3v1 = 0 \<and>
             hasModifiedTags (MpegTagSaver name file' tags) =
               ((APETag pFile \<noteq> None \<and> fst ape) \<or> fst id3v2) \<and>
             saveModifiedTags lib (MpegTagSaver name file' tags) w =
               TagLib_save name (mpeg_save lib tags file') w)"
  using assms
  by (auto simp add: MpegTagSaver_exportTrackMetadata_def Let_def hasAPETag_def callSink_def
      getOrCreate_def hasModifiedTags_def saveModifiedTags_def
      NoTags_def ID3v1_def ID3v2_def APE_def
      split: prod.splits option.splits)

text \<open>
  The theorem at an open MP3 file without any tag: it gets a FrameTag with the new title,
  and nothing else; the mask names the FrameTag only.
\<close>

theorem mpeg_export_policy_witness:
  "isOpen bareFile \<and> ID3v2Tag bareFile = None \<and> APETag bareFile = None \<and>
   ID3v2Tag (snd (MpegTagSaver_exportTrackMetadata demoLib bareFile demoMetadata)) =
     Some (''Old'', None) \<and>
   APETag (snd (MpegTagSaver_exportTrackMetadata demoLib bareFile demoMetadata)) = None \<and>
   ID3v1Tag (snd (MpegTagSaver_exportTrackMetadata demoLib bareFile demoMetadata)) = None \<and>
   fst (MpegTagSaver_exportTrackMetadata demoLib bareFile demoMetadata) = ID3v2"
proof -
  have h1: "isOpen bareFile"
    by (simp add: bareFile_def)
  have h2: "ID3v2Tag bareFile = None" "APETag bareFile = None" "ID3v1Tag bareFile = None"
    by (simp_all add: bareFile_def closedFile_def)
  have h3: "callSink (id3v2_exportTrackMetadataIntoTag demoLib) (Some (emptyTag demoLib))
              demoMetadata = (True, Some (''Old'', None))"
    by (simp add: callSink_def demo_defs)
  have h4: "callSink (ape_exportTrackMetadataIntoTag demoLib) None demoMetadata =
              (False, None)"
    by (simp add: callSink_def demo_defs)
  have h5: "getOrCreate demoLib None = Some (emptyTag demoLib)"
    by (simp add: getOrCreate_def)
  have h6: "NoTags OR ID3v2 = ID3v2"
    by (simp add: NoTags_def)
  from mpeg_export_policy [OF h1, where lib = demoLib and trackMetadata = demoMetadata,
      unfolded Let_def] h2 h3 h4 h5 h6
  have "ID3v2Tag (snd (MpegTagSaver_exportTrackMetadata demoLib bareFile demoMetadata)) =
          Some (''Old'', None) \<and>
        APETag (snd (MpegTagSaver_exportTrackMetadata demoLib bareFile demoMetadata)) = None \<and>
        ID3v1Tag (snd (MpegTagSaver_exportTrackMetadata demoLib bareFile demoMetadata)) = None \<and>
        fst (MpegTagSaver_exportTrackMetadata demoLib bareFile demoMetadata) = ID3v2"
    by simp
  with h1 h2 show ?thesis
    by simp
qed

text \<open>
  Claim C4 as stated fails. The first file is open and has a KeyValueTag and no FrameTag:
  the export updates the KeyValueTag and creates no FrameTag, and the mask names the
  KeyValueTag only. The second file is open and has a FrameTag and a LegacyFrameTag: the
  export updates the FrameTag and leaves the LegacyFrameTag, which exists, as it was, and
  the mask names the FrameTag only.
\<close>

theorem mpeg_export_no_frame_tag_created:
  "isOpen (bareFile\<lparr>APETag := Some (''On disk'', None)\<rparr>) \<and>
   ID3v2Tag (bareFile\<lparr>APETag := Some (''On disk'', None)\<rparr>) = None \<and>
   ID3v2Tag (snd (MpegTagSaver_exportTrackMetadata demoLib
                    (bareFile\<lparr>APETag := Some (''On disk'', None)\<rparr>) demoMetadata)) = None \<and>
   APETag (snd (MpegTagSaver_exportTrackMetadata demoLib
                  (bareFile\<lparr>APETag := Some (''On disk'', None)\<rparr>) demoMetadata)) =
     Some (''Old'', None) \<and>
   fst (MpegTagSaver_exportTrackMetadata demoLib
          (bareFile\<lparr>APETag := Some (''On disk'', None)\<rparr>) demoMetadata) = APE \<and>
   isOpen (bareFile\<lparr>ID3v2Tag := Some (''On disk'', None),
                     ID3v1Tag := Some (''On disk'', None)\<rparr>) \<and>
   ID3v2Tag (snd (MpegTagSaver_exportTrackMetadata demoLib
                    (bareFile\<lparr>ID3v2Tag := Some (''On disk'', None),
                              ID3v1Tag := Some (''On disk'', None)\<rparr>) demoMetadata)) =
     Some (''Old'', None) \<and>
   ID3v1Tag (snd (MpegTagSaver_exportTrackMetadata demoLib
                    (bareFile\<lparr>ID3v2Tag := Some (''On disk'', None),
                              ID3v1Tag := Some (''On disk'', None)\<rparr>) demoMetadata)) =
     Some (''On disk'', None) \<and>
   fst (MpegTagSaver_exportTrackMetadata demoLib
          (bareFile\<lparr>ID3v2Tag := Some (''On disk'', None),
                    ID3v1Tag := Some (''On disk'', None)\<rparr>) demoMetadata) = ID3v2 \<and>
   ID3v2 AND ID3v1 = 0"
  by (simp add: MpegTagSaver_exportTrackMetadata_def Let_def hasAPETag_def callSink_def
      getOrCreate_def demo_defs NoTags_def ID3v1_def ID3v2_def APE_def)

end
